theory Spec2Isabelle
  imports Complex_Main "HOL-Library.Word"
begin

section \<open>Values, errors and the observable world\<close>

text \<open>
  The program is \<^verbatim>\<open>src/claim.js\<close>. Every asynchronous function of the
  source becomes a function that takes the world and returns its result together with the
  new world. A JavaScript exception is the left summand: a promise that rejects with
  \<^verbatim>\<open>new Error(msg)\<close> is \<open>Inl (Error msg)\<close>, a promise that resolves with
  \<open>v\<close> is \<open>Inr v\<close>.
\<close>

datatype js_error = Error (message: string)

datatype log_level = Info | Warn | Err

type_synonym log_line = "log_level \<times> string"

text \<open>
  A transaction object as \<^verbatim>\<open>_requestFaucetToken\<close> builds it
  (\<^verbatim>\<open>to, data, value, from\<close>), with the \<^verbatim>\<open>gasLimit\<close> that
  \<^verbatim>\<open>executeTransaction\<close> adds; the object handed to
  \<^verbatim>\<open>wallet.sendTransaction\<close> carries the \<^verbatim>\<open>chainId\<close> as well.
\<close>

record tx_request =
  tx_to :: string
  tx_data :: string
  tx_value :: int
  tx_from :: string
  tx_gasLimit :: "int option"

record send_request = tx_request +
  chainId :: int

record tx_response =
  hash :: string

record receipt =
  status :: int
  gasUsed :: int

record fee_data =
  maxFeePerGas :: "int option"
  maxPriorityFeePerGas :: "int option"

datatype gas_params =
  Eip1559 int int
| GasPrice int

text \<open>
  The world: \<open>node\<close> is the state of the remote node and of the signer (abstract, only
  the external calls below read and change it); \<open>logs\<close> holds the lines written through
  \<^verbatim>\<open>logger\<close>, oldest first; \<open>submitted\<close> holds every object passed to
  \<^verbatim>\<open>wallet.sendTransaction\<close>, oldest first; \<open>slept\<close> holds the delays, in
  milliseconds, of the timers awaited; \<open>rand_used\<close> counts the calls of
  \<^verbatim>\<open>Math.random\<close> made so far.
\<close>

record 'n world =
  node :: 'n
  logs :: "log_line list"
  submitted :: "send_request list"
  slept :: "int list"
  rand_used :: nat

definition logger_info :: "string \<Rightarrow> 'n world \<Rightarrow> 'n world" where
  "logger_info m w = w\<lparr>logs := logs w @ [(Info, m)]\<rparr>"

definition logger_warn :: "string \<Rightarrow> 'n world \<Rightarrow> 'n world" where
  "logger_warn m w = w\<lparr>logs := logs w @ [(Warn, m)]\<rparr>"

definition logger_error :: "string \<Rightarrow> 'n world \<Rightarrow> 'n world" where
  "logger_error m w = w\<lparr>logs := logs w @ [(Err, m)]\<rparr>"

text \<open>
  \<^verbatim>\<open>await new Promise((resolve) => setTimeout(resolve, ms))\<close>.
\<close>

definition sleep_ms :: "int \<Rightarrow> 'n world \<Rightarrow> 'n world" where
  "sleep_ms ms w = w\<lparr>slept := slept w @ [ms]\<rparr>"

text \<open>
  \<^verbatim>\<open>Math.random()\<close>: the sequence \<open>rnd\<close> of the values it returns during the
  execution is a parameter of the model. They are doubles (binary64 numbers, here the reals
  that binary64 represents), at least 0 and below 1.
\<close>

definition Math_random :: "(nat \<Rightarrow> real) \<Rightarrow> 'n world \<Rightarrow> real \<times> 'n world" where
  "Math_random rnd w = (rnd (rand_used w), w\<lparr>rand_used := Suc (rand_used w)\<rparr>)"

subsection \<open>Template literals: decimal rendering of numbers\<close>

definition digit_char :: "nat \<Rightarrow> char" where
  "digit_char d = ''0123456789abcdef'' ! d"

function show_nat :: "nat \<Rightarrow> string" where
  "show_nat n = (if n < 10 then [digit_char n] else show_nat (n div 10) @ [digit_char (n mod 10)])"
  by pat_completeness auto
termination
  by (relation "measure (\<lambda>n. n)") auto

declare show_nat.simps [simp del]

definition show_int :: "int \<Rightarrow> string" where
  "show_int i = (if i < 0 then ''-'' @ show_nat (nat (- i)) else show_nat (nat i))"

subsection \<open>Arithmetic on doubles\<close>

text \<open>
  A JavaScript number is an IEEE 754 binary64 value, and every arithmetic operation
  returns the exact result rounded to the nearest double, ties to the even significand.
  \<open>round64\<close> is that rounding on the reals: \<open>exponent x\<close> is the \<open>e\<close> with
  \<open>2 ^ e \<le> \<bar>x\<bar> < 2 ^ (e + 1)\<close>, the spacing of the doubles around \<open>x\<close> is
  \<open>2 ^ (e - 52)\<close> (with \<open>e\<close> not below \<open>- 1022\<close>: the subnormal numbers), and \<open>x\<close>
  is rounded to a multiple of that spacing. Overflow to \<^verbatim>\<open>Infinity\<close> (results of
  magnitude \<open>2 ^ 1024\<close> and above) and the sign of zero are left out.
\<close>

function bit_length :: "nat \<Rightarrow> nat" where
  "bit_length n = (if n = 0 then 0 else Suc (bit_length (n div 2)))"
  by pat_completeness auto
termination
  by (relation "measure (\<lambda>n. n)") auto

declare bit_length.simps [simp del]

definition exponent :: "real \<Rightarrow> int" where
  "exponent x =
     (if 1 \<le> \<bar>x\<bar> then int (bit_length (nat \<lfloor>\<bar>x\<bar>\<rfloor>)) - 1
      else - int (bit_length (nat (\<lceil>1 / \<bar>x\<bar>\<rceil> - 1))))"

definition pow2 :: "int \<Rightarrow> real" where
  "pow2 e = (if 0 \<le> e then 2 ^ nat e else 1 / 2 ^ nat (- e))"

definition round_half_even :: "real \<Rightarrow> int" where
  "round_half_even q =
     (if q - of_int \<lfloor>q\<rfloor> < 1 / 2 then \<lfloor>q\<rfloor>
      else if 1 / 2 < q - of_int \<lfloor>q\<rfloor> then \<lfloor>q\<rfloor> + 1
      else if even \<lfloor>q\<rfloor> then \<lfloor>q\<rfloor> else \<lfloor>q\<rfloor> + 1)"

definition round64 :: "real \<Rightarrow> real" where
  "round64 x =
     (if x = 0 then 0
      else of_int (round_half_even (x / pow2 (max (exponent x) (- 1022) - 52)))
             * pow2 (max (exponent x) (- 1022) - 52))"

section \<open>Constants\<close>

definition CHAIN_ID :: int where
  "CHAIN_ID = 6342"

definition EXPLORER_URL_MEGAETH :: string where
  "EXPLORER_URL_MEGAETH = ''https://explorer.megaeth.network/tx/''"

section \<open>retryLogic\<close>

text \<open>
  \<^verbatim>\<open>retryLogic(fn, maxAttempts, pauseRange, accountIndex)\<close>, lines 36 to 54. The
  \<^verbatim>\<open>for\<close> loop is \<open>retry_loop\<close>, with the loop variable \<open>attempt\<close> as an
  argument. An operation \<open>fn\<close> is any function of the world. When the loop ends without
  having entered its body the JavaScript function returns \<^verbatim>\<open>undefined\<close>, which
  is \<open>Inr None\<close>; a value \<open>v\<close> returned by \<open>fn\<close> is \<open>Inr (Some v)\<close>.
  \<open>accountIndex\<close> is the text that the template literal renders for it.
  \<open>maxAttempts\<close> is a natural number and the bounds of \<open>pauseRange\<close> are integers
  (that binary64 represents); the default values of the parameters are left out, every
  call in the source passes all four arguments.

  \<open>pause_of\<close> is
  \<^verbatim>\<open>Math.floor(Math.random() * (pauseRange[1] - pauseRange[0] + 1) + pauseRange[0])\<close>
  with the rounding of each of its four operations, in the order in which JavaScript
  evaluates them; \<open>delay_ms\<close> is \<^verbatim>\<open>pause * 1000\<close>, the delay given to
  \<^verbatim>\<open>setTimeout\<close>.
\<close>

definition pause_of :: "real \<Rightarrow> int \<times> int \<Rightarrow> int" where
  "pause_of r pauseRange =
     \<lfloor>round64
        (round64 (r * round64 (round64 (of_int (snd pauseRange) - of_int (fst pauseRange)) + 1))
         + of_int (fst pauseRange))\<rfloor>"

definition delay_ms :: "int \<Rightarrow> int" where
  "delay_ms pause = \<lfloor>round64 (of_int pause * 1000)\<rfloor>"

function retry_loop ::
  "(nat \<Rightarrow> real) \<Rightarrow> ('n world \<Rightarrow> (js_error + 'a) \<times> 'n world) \<Rightarrow> nat \<Rightarrow> int \<times> int \<Rightarrow> string
     \<Rightarrow> nat \<Rightarrow> 'n world \<Rightarrow> (js_error + 'a option) \<times> 'n world" where
  "retry_loop rnd fn maxAttempts pauseRange accountIndex attempt w =
     (if attempt \<le> maxAttempts then
        (case fn w of
           (Inr v, w1) \<Rightarrow> (Inr (Some v), w1)
         | (Inl error, w1) \<Rightarrow>
             if attempt = maxAttempts then
               (Inl error,
                logger_error (accountIndex @ '' | Max attempts reached: '' @ message error) w1)
             else
               (let (r, w2) = Math_random rnd w1;
                    pause = pause_of r pauseRange;
                    w3 = logger_warn (accountIndex @ '' | Attempt '' @ show_nat attempt
                           @ '' failed: '' @ message error @ ''. Retrying in ''
                           @ show_int pause @ ''s...'') w2;
                    w4 = sleep_ms (delay_ms pause) w3
                in retry_loop rnd fn maxAttempts pauseRange accountIndex (Suc attempt) w4))
      else (Inr None, w))"
  by pat_completeness auto
termination
  by (relation "measure (\<lambda>(rnd, fn, maxAttempts, pauseRange, accountIndex, attempt, w).
        Suc maxAttempts - attempt)") auto

declare retry_loop.simps [simp del]

definition retryLogic ::
  "(nat \<Rightarrow> real) \<Rightarrow> ('n world \<Rightarrow> (js_error + 'a) \<times> 'n world) \<Rightarrow> nat \<Rightarrow> int \<times> int \<Rightarrow> string
     \<Rightarrow> 'n world \<Rightarrow> (js_error + 'a option) \<times> 'n world" where
  "retryLogic rnd fn maxAttempts pauseRange accountIndex w =
     retry_loop rnd fn maxAttempts pauseRange accountIndex 1 w"

section \<open>Web3Custom\<close>

text \<open>
  The provider of \<^verbatim>\<open>ethers\<close>, the wallet, the pending-transaction handle, the
  ERC-20 contract object and the engine's \<^verbatim>\<open>Array.prototype.sort\<close> are not part of
  the repository: they are the fields of a record of functions \<open>C\<close>. The remote calls are
  functions of the node state that either reject (\<open>Inl\<close>) or resolve (\<open>Inr\<close>).
  \<open>provider_getNetwork\<close> resolves with \<^verbatim>\<open>network.chainId\<close>.
  \<open>txResponse_wait\<close> is \<^verbatim>\<open>txResponse.wait()\<close>; as a field it may be any
  function, and \<open>ethers_wait\<close> below is the one that the library provides.
  \<open>array_sort_random\<close> stands for \<^verbatim>\<open>sort(() => Math.random() - 0.5)\<close>: it
  takes the array and the number of calls of \<^verbatim>\<open>Math.random\<close> made so far and
  returns the array as sorted and the new number of calls.
\<close>

record faucet_payload =
  token :: string
  payload :: string
  contract :: string

record 'n chain =
  provider_estimateGas :: "tx_request \<Rightarrow> 'n \<Rightarrow> (js_error + int) \<times> 'n"
  provider_getFeeData :: "'n \<Rightarrow> (js_error + fee_data) \<times> 'n"
  provider_getNetwork :: "'n \<Rightarrow> (js_error + int) \<times> 'n"
  wallet_sendTransaction :: "send_request \<Rightarrow> 'n \<Rightarrow> (js_error + tx_response) \<times> 'n"
  txResponse_wait :: "tx_response \<Rightarrow> 'n \<Rightarrow> (js_error + receipt) \<times> 'n"
  contract_balanceOf :: "string \<Rightarrow> string \<Rightarrow> 'n \<Rightarrow> (js_error + int) \<times> 'n"
  array_sort_random :: "faucet_payload list \<Rightarrow> nat \<Rightarrow> faucet_payload list \<times> nat"


text \<open>A remote call made in the world: only the node state changes.\<close>

definition remote :: "('n \<Rightarrow> 'r \<times> 'n) \<Rightarrow> 'n world \<Rightarrow> 'r \<times> 'n world" where
  "remote f w = (case f (node w) of (r, n') \<Rightarrow> (r, w\<lparr>node := n'\<rparr>))"

text \<open>
  \<^verbatim>\<open>wallet.sendTransaction(req)\<close>: the request is recorded in \<open>submitted\<close>, then
  the signer and the node answer.
\<close>

definition sendTransaction ::
  "'n chain \<Rightarrow> send_request \<Rightarrow> 'n world \<Rightarrow> (js_error + tx_response) \<times> 'n world" where
  "sendTransaction C req w =
     remote (wallet_sendTransaction C req) (w\<lparr>submitted := submitted w @ [req]\<rparr>)"

text \<open>\<^verbatim>\<open>estimateGas(tx)\<close>, lines 89 to 95.\<close>

definition estimateGas ::
  "'n chain \<Rightarrow> tx_request \<Rightarrow> 'n world \<Rightarrow> (js_error + int) \<times> 'n world" where
  "estimateGas C tx w =
     (case remote (provider_estimateGas C tx) w of
        (Inr gas, w1) \<Rightarrow> (Inr gas, w1)
      | (Inl error, w1) \<Rightarrow> (Inl (Error (''Failed to estimate gas: '' @ message error)), w1))"

text \<open>
  \<^verbatim>\<open>getGasParams()\<close>, lines 97 to 113. The fee fields are
  \<^verbatim>\<open>null | bigint\<close>; the condition of the source is JavaScript truthiness, under
  which \<^verbatim>\<open>null\<close> and \<^verbatim>\<open>0n\<close> are both false.
  \<^verbatim>\<open>ethers.parseUnits("20", "gwei")\<close> is \<open>20 * 10 ^ 9\<close>.
\<close>

definition truthy_bigint :: "int option \<Rightarrow> bool" where
  "truthy_bigint x = (case x of None \<Rightarrow> False | Some v \<Rightarrow> v \<noteq> 0)"

definition fallback_gasPrice :: int where
  "fallback_gasPrice = 20 * 10 ^ 9"

definition getGasParams :: "'n chain \<Rightarrow> 'n world \<Rightarrow> (js_error + gas_params) \<times> 'n world" where
  "getGasParams C w =
     (case remote (provider_getFeeData C) w of
        (Inr feeData, w1) \<Rightarrow>
          if truthy_bigint (maxFeePerGas feeData) \<and> truthy_bigint (maxPriorityFeePerGas feeData)
          then (Inr (Eip1559 (the (maxFeePerGas feeData)) (the (maxPriorityFeePerGas feeData))), w1)
          else (Inr (GasPrice fallback_gasPrice),
                logger_warn ''EIP-1559 data not available, using fallback gas price.'' w1)
      | (Inl error, w1) \<Rightarrow>
          (Inr (GasPrice fallback_gasPrice),
           logger_error (''Failed to get gas parameters: '' @ message error) w1))"

text \<open>
  \<^verbatim>\<open>executeTransaction(txData, wallet, chainId, explorerUrl)\<close>, lines 115 to 142.
  The result \<open>Inr (Some h)\<close> is the returned hash, \<open>Inr None\<close> is the returned
  \<^verbatim>\<open>null\<close>. The wallet is the one of \<open>C\<close>.
\<close>

definition with_chainId :: "tx_request \<Rightarrow> int \<Rightarrow> send_request" where
  "with_chainId txData cid =
     \<lparr>tx_to = tx_to txData, tx_data = tx_data txData, tx_value = tx_value txData,
      tx_from = tx_from txData, tx_gasLimit = tx_gasLimit txData, chainId = cid\<rparr>"

definition executeTransaction ::
  "'n chain \<Rightarrow> tx_request \<Rightarrow> int \<Rightarrow> string \<Rightarrow> 'n world \<Rightarrow> (js_error + string option) \<times> 'n world" where
  "executeTransaction C txData cid explorerUrl w =
     (case estimateGas C txData w of
        (Inl error, w1) \<Rightarrow>
          (Inl error, logger_error (''Transaction execution failed: '' @ message error) w1)
      | (Inr gasLimit, w1) \<Rightarrow>
          (let txData' = txData\<lparr>tx_gasLimit := Some gasLimit\<rparr>;
               w2 = logger_info (''Estimated gas limit: '' @ show_int gasLimit) w1
           in case sendTransaction C (with_chainId txData' cid) w2 of
                (Inl error, w3) \<Rightarrow>
                  (Inl error, logger_error (''Transaction execution failed: '' @ message error) w3)
              | (Inr txResponse, w3) \<Rightarrow>
                  (let w4 = logger_info (''Transaction sent: '' @ explorerUrl @ hash txResponse) w3
                   in case remote (txResponse_wait C txResponse) w4 of
                        (Inl error, w5) \<Rightarrow>
                          (Inl error,
                           logger_error (''Transaction execution failed: '' @ message error) w5)
                      | (Inr receipt, w5) \<Rightarrow>
                          if status receipt = 1 then
                            (Inr (Some (hash txResponse)),
                             logger_info (explorerUrl @ hash txResponse
                               @ '' | Transaction successful (Gas used: ''
                               @ show_int (gasUsed receipt) @ '')'') w5)
                          else
                            (Inr None,
                             logger_error (''Transaction failed: '' @ explorerUrl
                               @ hash txResponse) w5))))"

text \<open>\<^verbatim>\<open>checkNetwork()\<close>, lines 144 to 156.\<close>

definition checkNetwork :: "'n chain \<Rightarrow> 'n world \<Rightarrow> (js_error + unit) \<times> 'n world" where
  "checkNetwork C w =
     (case remote (provider_getNetwork C) w of
        (Inl error, w1) \<Rightarrow>
          (Inl (Error (''Failed to connect to network: '' @ message error)), w1)
      | (Inr network_chainId, w1) \<Rightarrow>
          if network_chainId \<noteq> CHAIN_ID then
            (Inl (Error (''Failed to connect to network: ''
               @ ''Connected to wrong network. Expected chain ID '' @ show_int CHAIN_ID
               @ '', but got '' @ show_int network_chainId)), w1)
          else
            (Inr (), logger_info (''Connected to MegaETH network (chain ID: ''
               @ show_int network_chainId @ '')'') w1))"

section \<open>TekoFinance\<close>

text \<open>
  The fields of a \<^verbatim>\<open>TekoFinance\<close> object that the methods read:
  \<^verbatim>\<open>accountIndex\<close> (as the template literals render it),
  \<^verbatim>\<open>wallet.address\<close> and \<^verbatim>\<open>config.SETTINGS.PAUSE_BETWEEN_ATTEMPTS\<close>.
\<close>

record teko =
  accountIndex :: string
  wallet_address :: string
  PAUSE_BETWEEN_ATTEMPTS :: "int \<times> int"

text \<open>\<^verbatim>\<open>initialize()\<close>, lines 205 to 212.\<close>

definition initialize :: "'n chain \<Rightarrow> 'n world \<Rightarrow> (js_error + unit) \<times> 'n world" where
  "initialize C w =
     (case checkNetwork C w of
        (Inl error, w1) \<Rightarrow> (Inl error, logger_error (''Initialization failed: '' @ message error) w1)
      | (Inr u, w1) \<Rightarrow> (Inr u, w1))"

text \<open>
  \<^verbatim>\<open>String.prototype.toLowerCase\<close> on the characters of an address (ASCII), and
  \<^verbatim>\<open>slice(2)\<close>.
\<close>

definition toLowerCase_char :: "char \<Rightarrow> char" where
  "toLowerCase_char c =
     (if 65 \<le> (of_char c :: nat) \<and> (of_char c :: nat) \<le> 90 then char_of (of_char c + 32 :: nat) else c)"

definition toLowerCase :: "string \<Rightarrow> string" where
  "toLowerCase s = map toLowerCase_char s"

text \<open>
  The array \<^verbatim>\<open>payloads\<close> of \<^verbatim>\<open>faucet()\<close>, lines 216 to 237, before it
  is sorted. \<^verbatim>\<open>ethers.getAddress\<close> returns a checksummed address unchanged, and the
  four literals are checksummed.
\<close>

definition faucet_payloads :: "string \<Rightarrow> faucet_payload list" where
  "faucet_payloads address =
     [\<lparr>token = ''tkETH'',
       payload = ''0x40c10f19000000000000000000000000'' @ toLowerCase (drop 2 address)
         @ ''0000000000000000000000000000000000000000000000000de0b6b3a7640000'',
       contract = ''0x176735870dc6C22B4EBFBf519DE2ce758de78d94''\<rparr>,
      \<lparr>token = ''tkUSDC'',
       payload = ''0x40c10f19000000000000000000000000'' @ toLowerCase (drop 2 address)
         @ ''0000000000000000000000000000000000000000000000000000000077359400'',
       contract = ''0xFaf334e157175Ff676911AdcF0964D7f54F2C424''\<rparr>,
      \<lparr>token = ''tkWBTC'',
       payload = ''0x40c10f19000000000000000000000000'' @ toLowerCase (drop 2 address)
         @ ''00000000000000000000000000000000000000000000000000000000001e8480'',
       contract = ''0xF82ff0799448630eB56Ce747Db840a2E02Cde4D8''\<rparr>,
      \<lparr>token = ''cUSD'',
       payload = ''0x40c10f19000000000000000000000000'' @ toLowerCase (drop 2 address)
         @ ''00000000000000000000000000000000000000000000003635c9adc5dea00000'',
       contract = ''0xE9b6e75C243B6100ffcb1c66e8f78F96FeeA727F''\<rparr>]"

text \<open>
  \<^verbatim>\<open>_requestFaucetToken(tokenName, payload, contract)\<close>, lines 256 to 288: the
  closure \<^verbatim>\<open>fn\<close> and its call under \<open>retryLogic\<close>. The condition
  \<^verbatim>\<open>if (txHash)\<close> is truthiness: \<^verbatim>\<open>null\<close> and the empty string are
  false.
\<close>

definition truthy_hash :: "string option \<Rightarrow> bool" where
  "truthy_hash h = (case h of None \<Rightarrow> False | Some s \<Rightarrow> s \<noteq> [])"

definition requestFaucetToken_fn ::
  "teko \<Rightarrow> 'n chain \<Rightarrow> string \<Rightarrow> string \<Rightarrow> string \<Rightarrow> 'n world \<Rightarrow> (js_error + bool) \<times> 'n world" where
  "requestFaucetToken_fn T C tokenName pl ct w =
     (let w1 = logger_info (accountIndex T @ '' | Requesting Teko Finance faucet token: ''
                 @ tokenName) w;
          tx = \<lparr>tx_to = ct, tx_data = pl, tx_value = 0, tx_from = wallet_address T,
                tx_gasLimit = None\<rparr>
      in case executeTransaction C tx CHAIN_ID EXPLORER_URL_MEGAETH w1 of
           (Inl error, w2) \<Rightarrow> (Inl error, w2)
         | (Inr txHash, w2) \<Rightarrow>
             if truthy_hash txHash then
               (Inr True, logger_info (accountIndex T @ '' | Teko Finance '' @ tokenName
                  @ '' minted successfully!'') w2)
             else
               (Inr False, logger_error (accountIndex T @ '' | Transaction failed.'') w2))"

definition requestFaucetToken ::
  "teko \<Rightarrow> 'n chain \<Rightarrow> (nat \<Rightarrow> real) \<Rightarrow> string \<Rightarrow> string \<Rightarrow> string \<Rightarrow> 'n world
     \<Rightarrow> (js_error + bool option) \<times> 'n world" where
  "requestFaucetToken T C rnd tokenName pl ct w =
     retryLogic rnd (requestFaucetToken_fn T C tokenName pl ct) 3 (PAUSE_BETWEEN_ATTEMPTS T)
       (accountIndex T) w"

text \<open>
  \<^verbatim>\<open>faucet()\<close>, lines 214 to 254. \<open>faucet_loop\<close> is the
  \<^verbatim>\<open>for (const payload of payloads)\<close> loop: the value that each awaited call
  yields is dropped, an exception leaves the loop.
\<close>

fun faucet_loop ::
  "teko \<Rightarrow> 'n chain \<Rightarrow> (nat \<Rightarrow> real) \<Rightarrow> faucet_payload list \<Rightarrow> 'n world
     \<Rightarrow> (js_error + unit) \<times> 'n world" where
  "faucet_loop T C rnd [] w = (Inr (), w)"
| "faucet_loop T C rnd (p # ps) w =
     (case requestFaucetToken T C rnd (token p) (payload p) (contract p) w of
        (Inl error, w1) \<Rightarrow> (Inl error, w1)
      | (Inr r, w1) \<Rightarrow> faucet_loop T C rnd ps w1)"

definition faucet :: "teko \<Rightarrow> 'n chain \<Rightarrow> (nat \<Rightarrow> real) \<Rightarrow> 'n world \<Rightarrow> bool \<times> 'n world" where
  "faucet T C rnd w =
     (case array_sort_random C (faucet_payloads (wallet_address T)) (rand_used w) of
        (payloads, used) \<Rightarrow>
          (case faucet_loop T C rnd payloads (w\<lparr>rand_used := used\<rparr>) of
             (Inr u, w1) \<Rightarrow> (True, w1)
           | (Inl error, w1) \<Rightarrow>
               (False, logger_error (accountIndex T @ '' | Faucet failed: '' @ message error) w1)))"

section \<open>The menu and the last block of main\<close>

text \<open>
  \<^verbatim>\<open>mainMenu(tekoFinance, wallet)\<close>, lines 332 to 398, over the list of the
  answers that the user gives to the prompts: the menu entry chosen and, for a claim, the
  number that \<^verbatim>\<open>parseInt\<close> reads from the validated input. The loop ends when
  \<^verbatim>\<open>process.exit(0)\<close> is called (\<open>Exited\<close>), when an exception leaves it, or,
  in the model, when no answer is left and the prompt stays pending (\<open>Prompting\<close>).
  What is printed through \<^verbatim>\<open>console.log\<close> is not modelled.
\<close>

datatype menu_choice = ShowWalletBalances | ClaimFaucet nat | Exit

datatype menu_end = Exited | Prompting

definition TKETH :: string where "TKETH = ''0x176735870dc6C22B4EBFBf519DE2ce758de78d94''"
definition TKUSDC :: string where "TKUSDC = ''0xFaf334e157175Ff676911AdcF0964D7f54F2C424''"
definition TKWBTC :: string where "TKWBTC = ''0xF82ff0799448630eB56Ce747Db840a2E02Cde4D8''"
definition CUSD :: string where "CUSD = ''0xE9b6e75C243B6100ffcb1c66e8f78F96FeeA727F''"

fun show_balances ::
  "teko \<Rightarrow> 'n chain \<Rightarrow> string list \<Rightarrow> 'n world \<Rightarrow> (js_error + unit) \<times> 'n world" where
  "show_balances T C [] w = (Inr (), w)"
| "show_balances T C (address # tokens) w =
     (case remote (contract_balanceOf C address (wallet_address T)) w of
        (Inl error, w1) \<Rightarrow> (Inl error, w1)
      | (Inr balance, w1) \<Rightarrow> show_balances T C tokens w1)"

primrec claim_loop :: "teko \<Rightarrow> 'n chain \<Rightarrow> (nat \<Rightarrow> real) \<Rightarrow> nat \<Rightarrow> 'n world \<Rightarrow> 'n world" where
  "claim_loop T C rnd 0 w = w"
| "claim_loop T C rnd (Suc numLoops) w = claim_loop T C rnd numLoops (snd (faucet T C rnd w))"

fun mainMenu ::
  "teko \<Rightarrow> 'n chain \<Rightarrow> (nat \<Rightarrow> real) \<Rightarrow> menu_choice list \<Rightarrow> 'n world
     \<Rightarrow> (js_error + menu_end) \<times> 'n world" where
  "mainMenu T C rnd [] w = (Inr Prompting, w)"
| "mainMenu T C rnd (ShowWalletBalances # answers) w =
     (case show_balances T C [TKETH, TKUSDC, TKWBTC, CUSD] w of
        (Inl error, w1) \<Rightarrow> (Inl error, w1)
      | (Inr u, w1) \<Rightarrow> mainMenu T C rnd answers w1)"
| "mainMenu T C rnd (ClaimFaucet numLoops # answers) w =
     mainMenu T C rnd answers (claim_loop T C rnd numLoops w)"
| "mainMenu T C rnd (Exit # answers) w = (Inr Exited, w)"

text \<open>
  The last \<^verbatim>\<open>try\<close> block of \<^verbatim>\<open>main()\<close>, lines 443 to 448:
  \<^verbatim>\<open>initialize\<close>, then the menu; an exception of either is logged.
\<close>

definition main_run ::
  "teko \<Rightarrow> 'n chain \<Rightarrow> (nat \<Rightarrow> real) \<Rightarrow> menu_choice list \<Rightarrow> 'n world \<Rightarrow> 'n world" where
  "main_run T C rnd answers w =
     (case initialize C w of
        (Inl error, w1) \<Rightarrow>
          logger_error (''Failed to execute TekoFinance operations: '' @ message error) w1
      | (Inr u, w1) \<Rightarrow>
          (case mainMenu T C rnd answers w1 of
             (Inl error, w2) \<Rightarrow>
               logger_error (''Failed to execute TekoFinance operations: '' @ message error) w2
           | (Inr e, w2) \<Rightarrow> w2))"

section \<open>Definitions used to state and to test the properties\<close>

text \<open>
  What \<open>retry_loop\<close> does to the world between a failed attempt that is not the last one
  and the next attempt: one call of \<^verbatim>\<open>Math.random\<close>, one warning, one sleep.
\<close>

definition after_failure ::
  "(nat \<Rightarrow> real) \<Rightarrow> int \<times> int \<Rightarrow> string \<Rightarrow> nat \<Rightarrow> js_error \<Rightarrow> 'n world \<Rightarrow> 'n world" where
  "after_failure rnd pauseRange label attempt e w1 =
     (let (r, w2) = Math_random rnd w1;
          pause = pause_of r pauseRange;
          w3 = logger_warn (label @ '' | Attempt '' @ show_nat attempt
                 @ '' failed: '' @ message e @ ''. Retrying in ''
                 @ show_int pause @ ''s...'') w2
      in sleep_ms (delay_ms pause) w3)"

text \<open>
  Every delay of \<open>ps\<close> (milliseconds) is a whole number of seconds between \<open>lo\<close> and
  \<open>hi\<close>, both included.
\<close>

definition sleeps_within :: "int \<Rightarrow> int \<Rightarrow> int list \<Rightarrow> bool" where
  "sleeps_within lo hi ps =
     list_all (\<lambda>p. p mod 1000 = 0 \<and> lo \<le> p div 1000 \<and> p div 1000 \<le> hi) ps"

text \<open>
  Concrete inputs: a world whose node state is a counter of the calls it has received, a
  random source, an operation that fails while the counter is below \<open>k\<close>, and one that
  always fails.
\<close>

definition world0 :: "nat world" where
  "world0 = \<lparr>node = 0, logs = [], submitted = [], slept = [], rand_used = 0\<rparr>"

definition rnd_half :: "nat \<Rightarrow> real" where
  "rnd_half i = 1 / 2"

text \<open>
  The largest double below 1 as every value of \<^verbatim>\<open>Math.random\<close> (a generator
  that draws 53 random bits returns it), and the double before it (the largest value of a
  generator that draws 52 bits).
\<close>

definition rnd_top :: "nat \<Rightarrow> real" where
  "rnd_top i = 1 - 1 / 2 ^ 53"

definition rnd_below_top :: "nat \<Rightarrow> real" where
  "rnd_below_top i = 1 - 1 / 2 ^ 52"

definition flaky_op :: "nat \<Rightarrow> nat world \<Rightarrow> (js_error + string) \<times> nat world" where
  "flaky_op k w =
     (if node w < k then Inl (Error (''timeout '' @ show_nat (node w))) else Inr ''0xabc'',
      w\<lparr>node := Suc (node w)\<rparr>)"

definition failing_op :: "nat world \<Rightarrow> (js_error + string) \<times> nat world" where
  "failing_op w = (Inl (Error (''timeout '' @ show_nat (node w))), w\<lparr>node := Suc (node w)\<rparr>)"

text \<open>
  Concrete collaborators whose node state counts the remote calls received. \<open>chain_ok\<close>
  answers every call (its fee data has a priority fee of zero); \<open>chain_no_gas\<close> rejects
  every gas estimation; in \<open>chain_reverted\<close> the node reports every transaction as
  reverted and \<^verbatim>\<open>wait()\<close> is the one of the library, which then rejects;
  \<open>chain_reverting\<close> has a \<^verbatim>\<open>wait()\<close> that resolves with a receipt of status
  0, which the library does not do. \<open>mint_tx\<close> is the transaction object that
  \<^verbatim>\<open>_requestFaucetToken\<close> builds.
\<close>

definition chain_ok :: "nat chain" where
  "chain_ok =
     \<lparr>provider_estimateGas = (\<lambda>tx n. (Inr 21000, Suc n)),
      provider_getFeeData =
        (\<lambda>n. (Inr \<lparr>maxFeePerGas = Some 2000000000, maxPriorityFeePerGas = Some 0\<rparr>, Suc n)),
      provider_getNetwork = (\<lambda>n. (Inr 6342, Suc n)),
      wallet_sendTransaction = (\<lambda>req n. (Inr \<lparr>hash = ''0xabc''\<rparr>, Suc n)),
      txResponse_wait = (\<lambda>r n. (Inr \<lparr>status = 1, gasUsed = 21000\<rparr>, Suc n)),
      contract_balanceOf = (\<lambda>address owner n. (Inr 0, Suc n)),
      array_sort_random = (\<lambda>ps used. (rev ps, used + 6))\<rparr>"

definition chain_reverting :: "nat chain" where
  "chain_reverting =
     chain_ok\<lparr>txResponse_wait := (\<lambda>r n. (Inr \<lparr>status = 0, gasUsed = 21000\<rparr>, Suc n))\<rparr>"




definition chain_no_gas :: "nat chain" where
  "chain_no_gas =
     chain_ok\<lparr>provider_estimateGas := (\<lambda>tx n. (Inl (Error ''execution reverted''), Suc n))\<rparr>"

definition teko0 :: teko where
  "teko0 = \<lparr>accountIndex = ''1'',
            wallet_address = ''0xAbCdEf0123456789aBcDeF0123456789abcdef01'',
            PAUSE_BETWEEN_ATTEMPTS = (5, 10)\<rparr>"

definition mint_tx :: "teko \<Rightarrow> string \<Rightarrow> string \<Rightarrow> tx_request" where
  "mint_tx T pl ct =
     \<lparr>tx_to = ct, tx_data = pl, tx_value = 0, tx_from = wallet_address T, tx_gasLimit = None\<rparr>"

text \<open>
  Between the worlds \<open>w\<close> and \<open>w'\<close> the list of submitted requests has only grown, and
  every request added carries the chain id \<open>cid\<close>.
\<close>

definition submits_only :: "int \<Rightarrow> 'n world \<Rightarrow> 'n world \<Rightarrow> bool" where
  "submits_only cid w w' =
     (take (length (submitted w)) (submitted w') = submitted w
      \<and> list_all (\<lambda>r. chainId r = cid) (drop (length (submitted w)) (submitted w')))"

text \<open>
  What the successive awaited calls of \<^verbatim>\<open>_requestFaucetToken\<close> in the loop of
  \<^verbatim>\<open>faucet()\<close> yield, in order: a returned value (\<open>Inr\<close>) or the exception
  (\<open>Inl\<close>) that ends the loop. The loop itself drops the returned values.
\<close>

fun faucet_results ::
  "teko \<Rightarrow> 'n chain \<Rightarrow> (nat \<Rightarrow> real) \<Rightarrow> faucet_payload list \<Rightarrow> 'n world
     \<Rightarrow> (js_error + bool option) list" where
  "faucet_results T C rnd [] w = []"
| "faucet_results T C rnd (p # ps) w =
     (case requestFaucetToken T C rnd (token p) (payload p) (contract p) w of
        (Inl error, w1) \<Rightarrow> [Inl error]
      | (Inr r, w1) \<Rightarrow> Inr r # faucet_results T C rnd ps w1)"

text \<open>
  More concrete collaborators: \<open>chain_wrong_net\<close> reports the chain id 1;
  \<open>chain_no_gas_for_tkWBTC\<close> rejects the gas estimation of every transaction sent to
  the tkWBTC contract.
\<close>

definition chain_wrong_net :: "nat chain" where
  "chain_wrong_net = chain_ok\<lparr>provider_getNetwork := (\<lambda>n. (Inr 1, Suc n))\<rparr>"

definition chain_no_gas_for_tkWBTC :: "nat chain" where
  "chain_no_gas_for_tkWBTC =
     chain_ok\<lparr>provider_estimateGas :=
       (\<lambda>tx n. (if tx_to tx = TKWBTC then Inl (Error ''execution reverted'') else Inr 21000, Suc n))\<rparr>"

text \<open>
  The encoding that the specification gives for a mint payload, on bytes: the selector
  \<^verbatim>\<open>0x40c10f19\<close>, the recipient address padded on the left with zero bytes to
  32 bytes, the amount as a 32-byte big-endian integer. \<open>hex_of_bytes\<close> renders bytes as
  lower-case hexadecimal digits, two per byte. \<open>address_text bs s\<close> holds when the text
  \<open>s\<close> is a rendering of the 20 bytes \<open>bs\<close>: \<^verbatim>\<open>0x\<close> followed by their 40
  hexadecimal digits in any letter case (the checksummed form that
  \<^verbatim>\<open>wallet.address\<close> has is one).
\<close>

definition hex_of_byte :: "8 word \<Rightarrow> string" where
  "hex_of_byte b = [digit_char (unat b div 16), digit_char (unat b mod 16)]"

definition hex_of_bytes :: "8 word list \<Rightarrow> string" where
  "hex_of_bytes bs = concat (map hex_of_byte bs)"

fun be_bytes :: "nat \<Rightarrow> nat \<Rightarrow> 8 word list" where
  "be_bytes 0 v = []"
| "be_bytes (Suc n) v = be_bytes n (v div 256) @ [of_nat (v mod 256)]"

definition selector :: "8 word list" where
  "selector = [0x40, 0xc1, 0x0f, 0x19]"

definition mint_calldata :: "8 word list \<Rightarrow> nat \<Rightarrow> 8 word list" where
  "mint_calldata recipient amount = selector @ replicate 12 0 @ recipient @ be_bytes 32 amount"

definition address_text :: "8 word list \<Rightarrow> string \<Rightarrow> bool" where
  "address_text bs s =
     (length bs = 20 \<and> take 2 s = ''0x'' \<and> toLowerCase (drop 2 s) = hex_of_bytes bs)"

definition address0 :: "8 word list" where
  "address0 = [0xab, 0xcd, 0xef, 0x01, 0x23, 0x45, 0x67, 0x89, 0xab, 0xcd,
               0xef, 0x01, 0x23, 0x45, 0x67, 0x89, 0xab, 0xcd, 0xef, 0x01]"

section \<open>Properties of retryLogic\<close>

lemma world_frame [simp]:
  "node (logger_info m w) = node w" "node (logger_warn m w) = node w"
  "node (logger_error m w) = node w"
  "node (sleep_ms ms w) = node w" "node (snd (Math_random rnd w)) = node w"
  "slept (logger_info m w) = slept w" "slept (logger_warn m w) = slept w"
  "slept (logger_error m w) = slept w"
  "slept (sleep_ms ms w) = slept w @ [ms]" "slept (snd (Math_random rnd w)) = slept w"
  "submitted (logger_info m w) = submitted w" "submitted (logger_warn m w) = submitted w"
  "submitted (logger_error m w) = submitted w"
  "submitted (sleep_ms ms w) = submitted w" "submitted (snd (Math_random rnd w)) = submitted w"
  "logs (logger_info m w) = logs w @ [(Info, m)]" "logs (logger_warn m w) = logs w @ [(Warn, m)]"
  "logs (logger_error m w) = logs w @ [(Err, m)]"
  "logs (sleep_ms ms w) = logs w" "logs (snd (Math_random rnd w)) = logs w"
  "fst (Math_random rnd w) = rnd (rand_used w)"
  by (simp_all add: logger_info_def logger_warn_def logger_error_def sleep_ms_def Math_random_def)

lemmas round64_defs = round64_def exponent_def pow2_def round_half_even_def bit_length.simps

lemma round64_5: "round64 5 = 5"
  by (simp add: round64_defs)

lemma round64_6: "round64 6 = 6"
  by (simp add: round64_defs)

lemma pause_of_half: "pause_of (rnd_half i) (5, 10) = 8"
  by (simp add: pause_of_def rnd_half_def round64_5 round64_6) (simp add: round64_defs)

lemma pause_of_top: "pause_of (rnd_top i) (5, 10) = 11"
proof -
  have a: "round64 ((1 - 1 / 2 ^ 53) * 6) = 6 - 1 / 2 ^ 50"
    by (simp add: round64_defs)
  have b: "round64 (6 - 1 / 2 ^ 50 + 5) = 11"
    by (simp add: round64_defs)
  have "pause_of (rnd_top i) (5, 10) =
          \<lfloor>round64 (round64 ((1 - 1 / 2 ^ 53) * round64 (round64 5 + 1)) + 5)\<rfloor>"
    by (simp add: pause_of_def rnd_top_def)
  also have "\<dots> = \<lfloor>round64 (round64 ((1 - 1 / 2 ^ 53) * 6) + 5)\<rfloor>"
    by (simp only: round64_5 round64_6 numeral_plus_one add_num_simps)
  also have "\<dots> = 11"
    by (simp only: a b floor_numeral)
  finally show ?thesis .
qed

lemma pause_of_below_top: "pause_of (rnd_below_top i) (100, 105) = 106"
proof -
  have a: "round64 ((1 - 1 / 2 ^ 52) * 6) = 6 - 1 / 2 ^ 49"
    by (simp add: round64_defs)
  have b: "round64 (6 - 1 / 2 ^ 49 + 100) = 106"
    by (simp add: round64_defs)
  have "pause_of (rnd_below_top i) (100, 105) =
          \<lfloor>round64 (round64 ((1 - 1 / 2 ^ 52) * round64 (round64 5 + 1)) + 100)\<rfloor>"
    by (simp add: pause_of_def rnd_below_top_def)
  also have "\<dots> = \<lfloor>round64 (round64 ((1 - 1 / 2 ^ 52) * 6) + 100)\<rfloor>"
    by (simp only: round64_5 round64_6 numeral_plus_one add_num_simps)
  also have "\<dots> = 106"
    by (simp only: a b floor_numeral)
  finally show ?thesis .
qed

lemma delay_ms_8: "delay_ms 8 = 8000"
  by (simp add: delay_ms_def round64_defs)

lemma delay_ms_11: "delay_ms 11 = 11000"
  by (simp add: delay_ms_def round64_defs)

lemma delay_ms_106: "delay_ms 106 = 106000"
  by (simp add: delay_ms_def round64_defs)

lemma retry_loop_Inr:
  "attempt \<le> maxAttempts \<Longrightarrow> fn w = (Inr v, w1) \<Longrightarrow>
   retry_loop rnd fn maxAttempts pauseRange label attempt w = (Inr (Some v), w1)"
  by (subst retry_loop.simps) simp

lemma retry_loop_last:
  "fn w = (Inl e, w1) \<Longrightarrow>
   retry_loop rnd fn maxAttempts pauseRange label maxAttempts w =
     (Inl e, logger_error (label @ '' | Max attempts reached: '' @ message e) w1)"
  by (subst retry_loop.simps) simp

lemma retry_loop_again:
  "attempt < maxAttempts \<Longrightarrow> fn w = (Inl e, w1) \<Longrightarrow>
   retry_loop rnd fn maxAttempts pauseRange label attempt w =
     retry_loop rnd fn maxAttempts pauseRange label (Suc attempt)
       (after_failure rnd pauseRange label attempt e w1)"
  by (subst retry_loop.simps) (simp add: after_failure_def Let_def split: prod.splits)

lemma after_failure_frame [simp]:
  "node (after_failure rnd pr label a e w) = node w"
  "submitted (after_failure rnd pr label a e w) = submitted w"
  "slept (after_failure rnd pr label a e w) = slept w @ [delay_ms (pause_of (rnd (rand_used w)) pr)]"
  by (simp_all add: after_failure_def Let_def Math_random_def logger_warn_def sleep_ms_def
      split: prod.splits)

lemma retry_loop_success_aux:
  fixes c :: "'n \<Rightarrow> nat" and fn :: "'n world \<Rightarrow> (js_error + 'a) \<times> 'n world"
  assumes inc: "\<And>x. c (node (snd (fn x))) = Suc (c (node x))"
    and frame: "\<And>x. slept (snd (fn x)) = slept x"
    and fails: "\<And>x. c (node x) < k \<Longrightarrow> isl (fst (fn x))"
    and succ: "\<And>x. c (node x) = k \<Longrightarrow> \<not> isl (fst (fn x))"
    and kn: "k < n"
  shows "c (node w) = j \<Longrightarrow> k - j = m \<Longrightarrow> j \<le> k \<Longrightarrow>
     \<exists>v wl w' ps. c (node wl) = k \<and> fn wl = (Inr v, w')
        \<and> retry_loop rnd fn n pr label (Suc j) w = (Inr (Some v), w')
        \<and> slept w' = slept w @ ps \<and> length ps = m"
proof (induction m arbitrary: j w)
  case 0
  then have jk: "c (node w) = k" by simp
  from succ [OF jk] obtain v w' where fw: "fn w = (Inr v, w')"
    by (cases "fn w"; cases "fst (fn w)") auto
  have "Suc j \<le> n" using 0 kn by simp
  then have "retry_loop rnd fn n pr label (Suc j) w = (Inr (Some v), w')"
    using fw by (rule retry_loop_Inr)
  moreover have "slept w' = slept w @ []" using frame [of w] fw by simp
  ultimately show ?case using jk fw 0 by auto
next
  case (Suc m)
  then have jk: "c (node w) < k" by simp
  from fails [OF jk] obtain e w1 where fw: "fn w = (Inl e, w1)"
    by (cases "fn w"; cases "fst (fn w)") auto
  let ?w4 = "after_failure rnd pr label (Suc j) e w1"
  let ?d = "delay_ms (pause_of (rnd (rand_used w1)) pr)"
  have step: "retry_loop rnd fn n pr label (Suc j) w = retry_loop rnd fn n pr label (Suc (Suc j)) ?w4"
    using Suc.prems kn fw by (intro retry_loop_again) auto
  have c4: "c (node ?w4) = Suc j" using inc [of w] fw Suc.prems by simp
  have "k - Suc j = m" "Suc j \<le> k" using Suc.prems by auto
  from Suc.IH [OF c4 this] obtain v wl w' ps where
    r: "c (node wl) = k" "fn wl = (Inr v, w')"
       "retry_loop rnd fn n pr label (Suc (Suc j)) ?w4 = (Inr (Some v), w')"
       "slept w' = slept ?w4 @ ps" "length ps = m"
    by blast
  have s1: "slept w1 = slept w" using frame [of w] fw by simp
  have "slept w' = slept w @ ?d # ps" using r(4) s1 by simp
  then show ?case using r step
    by (intro exI [of _ v] exI [of _ wl] exI [of _ w'] exI [of _ "?d # ps"]) simp
qed

lemma retry_loop_failure_aux:
  fixes c :: "'n \<Rightarrow> nat" and fn :: "'n world \<Rightarrow> (js_error + 'a) \<times> 'n world"
  assumes inc: "\<And>x. c (node (snd (fn x))) = Suc (c (node x))"
    and fails: "\<And>x. isl (fst (fn x))"
  shows "c (node w) = j \<Longrightarrow> n - Suc j = m \<Longrightarrow> j < n \<Longrightarrow>
     \<exists>e wl w'. c (node wl) = n - 1 \<and> fn wl = (Inl e, w')
        \<and> retry_loop rnd fn n pr label (Suc j) w =
            (Inl e, logger_error (label @ '' | Max attempts reached: '' @ message e) w')"
proof (induction m arbitrary: j w)
  case 0
  then have jn: "Suc j = n" by simp
  from fails [of w] obtain e w1 where fw: "fn w = (Inl e, w1)"
    by (cases "fn w"; cases "fst (fn w)") auto
  have "retry_loop rnd fn n pr label n w =
          (Inl e, logger_error (label @ '' | Max attempts reached: '' @ message e) w1)"
    using fw by (rule retry_loop_last)
  moreover have "c (node w) = n - 1" using 0 jn by simp
  ultimately show ?case using jn fw
    by (intro exI [of _ e] exI [of _ w] exI [of _ w1]) simp
next
  case (Suc m)
  from fails [of w] obtain e w1 where fw: "fn w = (Inl e, w1)"
    by (cases "fn w"; cases "fst (fn w)") auto
  let ?w4 = "after_failure rnd pr label (Suc j) e w1"
  have step: "retry_loop rnd fn n pr label (Suc j) w = retry_loop rnd fn n pr label (Suc (Suc j)) ?w4"
    using Suc.prems fw by (intro retry_loop_again) auto
  have c4: "c (node ?w4) = Suc j" using inc [of w] fw Suc.prems by simp
  have "n - Suc (Suc j) = m" "Suc j < n" using Suc.prems by auto
  from Suc.IH [OF c4 this] show ?case using step by simp
qed

text \<open>
  What holds of an operation that fails \<open>k < n\<close> times and then returns (it counts its
  invocations in the node state, \<open>c\<close> reads the count, and it does not sleep itself):
  \<open>retryLogic\<close> returns the value and the world that the operation returned at its
  invocation number \<open>k + 1\<close>, after exactly \<open>k + 1\<close> invocations and exactly \<open>k\<close>
  sleeps.
\<close>

lemma retryLogic_fails_k_then_succeeds_counts:
  fixes c :: "'n \<Rightarrow> nat" and fn :: "'n world \<Rightarrow> (js_error + 'a) \<times> 'n world"
  assumes "k < n"
    and "c (node w) = 0"
    and "\<forall>x. c (node (snd (fn x))) = Suc (c (node x))"
    and "\<forall>x. slept (snd (fn x)) = slept x"
    and "\<forall>x. c (node x) < k \<longrightarrow> isl (fst (fn x))"
    and "\<forall>x. c (node x) = k \<longrightarrow> \<not> isl (fst (fn x))"
  shows "\<exists>v wl w' ps. c (node wl) = k \<and> fn wl = (Inr v, w')
           \<and> retryLogic rnd fn n pauseRange label w = (Inr (Some v), w')
           \<and> c (node w') = k + 1
           \<and> slept w' = slept w @ ps \<and> length ps = k"
proof -
  have "\<exists>v wl w' ps. c (node wl) = k \<and> fn wl = (Inr v, w')
        \<and> retry_loop rnd fn n pauseRange label (Suc 0) w = (Inr (Some v), w')
        \<and> slept w' = slept w @ ps \<and> length ps = k"
    by (rule retry_loop_success_aux [where c = c and k = k and j = 0]) (use assms in auto)
  then obtain v wl w' ps where r: "c (node wl) = k" "fn wl = (Inr v, w')"
      "retry_loop rnd fn n pauseRange label (Suc 0) w = (Inr (Some v), w')"
      "slept w' = slept w @ ps" "length ps = k"
    by blast
  have "c (node w') = k + 1" using assms(3) r(1,2) by (metis Suc_eq_plus1 snd_conv)
  then show ?thesis using r unfolding retryLogic_def One_nat_def by blast
qed

text \<open>
  Claim C3 at \<^verbatim>\<open>Math.random() = 1 - 2 ** -53\<close> (the largest double below 1), with
  the range \<^verbatim>\<open>[5, 10]\<close> of the program and an operation that fails once and then
  succeeds: \<open>retryLogic\<close> returns the success value after two invocations and one
  sleep, and that sleep is of 11 seconds, outside the range. In doubles \<open>r * 6\<close> is
  rounded to \<open>6 - 2 ^ - 50\<close> and \<open>6 - 2 ^ - 50 + 5\<close>, a tie, is rounded to 11. The
  same happens at \<^verbatim>\<open>Math.random() = 1 - 2 ** -52\<close> with the range
  \<^verbatim>\<open>[100, 105]\<close>: the sleep is of 106 seconds.
\<close>

theorem retryLogic_sleep_above_range:
  "fst (retryLogic rnd_top (flaky_op 1) 3 (5, 10) ''1'' world0) = Inr (Some ''0xabc'')
   \<and> node (snd (retryLogic rnd_top (flaky_op 1) 3 (5, 10) ''1'' world0)) = 2
   \<and> slept (snd (retryLogic rnd_top (flaky_op 1) 3 (5, 10) ''1'' world0)) = [11000]
   \<and> \<not> sleeps_within 5 10 (slept (snd (retryLogic rnd_top (flaky_op 1) 3 (5, 10) ''1'' world0)))
   \<and> slept (snd (retryLogic rnd_below_top (flaky_op 1) 3 (100, 105) ''1'' world0)) = [106000]
   \<and> \<not> sleeps_within 100 105
         (slept (snd (retryLogic rnd_below_top (flaky_op 1) 3 (100, 105) ''1'' world0)))"
  by (simp add: retryLogic_def retry_loop.simps flaky_op_def world0_def Math_random_def
      logger_warn_def sleep_ms_def pause_of_top delay_ms_11 pause_of_below_top delay_ms_106
      sleeps_within_def)

text \<open>
  Claim C4, as amended. For \<open>maxAttempts = n\<close> with \<open>n \<ge> 1\<close> and an operation that
  fails on every invocation, \<open>retryLogic\<close> invokes the operation exactly \<open>n\<close> times and
  then propagates the error thrown by invocation number \<open>n\<close> unchanged, after logging an
  error line made of the label and that error's message; nothing follows the last attempt.
\<close>

theorem retryLogic_always_fails:
  fixes c :: "'n \<Rightarrow> nat" and fn :: "'n world \<Rightarrow> (js_error + 'a) \<times> 'n world"
  assumes "0 < n"
    and "c (node w) = 0"
    and "\<forall>x. c (node (snd (fn x))) = Suc (c (node x))"
    and "\<forall>x. isl (fst (fn x))"
  shows "\<exists>e wl w'. c (node wl) = n - 1 \<and> fn wl = (Inl e, w')
           \<and> retryLogic rnd fn n pauseRange label w =
               (Inl e, logger_error (label @ '' | Max attempts reached: '' @ message e) w')
           \<and> c (node (snd (retryLogic rnd fn n pauseRange label w))) = n"
proof -
  have "\<exists>e wl w'. c (node wl) = n - 1 \<and> fn wl = (Inl e, w')
        \<and> retry_loop rnd fn n pauseRange label (Suc 0) w =
            (Inl e, logger_error (label @ '' | Max attempts reached: '' @ message e) w')"
    by (rule retry_loop_failure_aux [where c = c and j = 0]) (use assms in auto)
  then obtain e wl w' where r: "c (node wl) = n - 1" "fn wl = (Inl e, w')"
      "retry_loop rnd fn n pauseRange label (Suc 0) w =
         (Inl e, logger_error (label @ '' | Max attempts reached: '' @ message e) w')"
    by blast
  have "c (node w') = n" using assms(1,3) r(1,2) by (metis Suc_pred' snd_conv)
  then show ?thesis using r unfolding retryLogic_def One_nat_def by auto
qed

theorem retryLogic_always_fails_witness:
  "\<exists>e wl w'. node wl = 3 - 1 \<and> failing_op wl = (Inl e, w')
     \<and> retryLogic rnd_half failing_op 3 (5, 10) ''1'' world0 =
         (Inl e, logger_error (''1'' @ '' | Max attempts reached: '' @ message e) w')
     \<and> node (snd (retryLogic rnd_half failing_op 3 (5, 10) ''1'' world0)) = 3"
  by (rule retryLogic_always_fails [where c = "\<lambda>x. x"])
    (simp_all add: failing_op_def world0_def)

text \<open>
  Claim C4 as stated fails for \<open>maxAttempts = 0\<close>: the loop body is never entered, the
  operation is not invoked, and \<open>retryLogic\<close> returns \<^verbatim>\<open>undefined\<close>
  instead of propagating a failure.
\<close>

theorem retryLogic_zero_attempts_counterexample:
  "retryLogic rnd_half failing_op 0 (5, 10) ''1'' world0 = (Inr None, world0)"
  by (simp add: retryLogic_def retry_loop.simps)

text \<open>Two runs of \<open>retryLogic\<close>, evaluated in full.\<close>

lemma retryLogic_example_success:
  "retryLogic rnd_half (flaky_op 2) 3 (5, 10) ''1'' world0 =
     (Inr (Some ''0xabc''),
      \<lparr>node = 3,
       logs = [(Warn, ''1 | Attempt 1 failed: timeout 0. Retrying in 8s...''),
               (Warn, ''1 | Attempt 2 failed: timeout 1. Retrying in 8s...'')],
       submitted = [], slept = [8000, 8000], rand_used = 2\<rparr>)"
  by (simp add: retryLogic_def retry_loop.simps flaky_op_def world0_def
      Math_random_def logger_warn_def sleep_ms_def pause_of_half delay_ms_8 show_nat.simps
      show_int_def digit_char_def)

lemma retryLogic_example_failure:
  "retryLogic rnd_half failing_op 3 (5, 10) ''1'' world0 =
     (Inl (Error ''timeout 2''),
      \<lparr>node = 3,
       logs = [(Warn, ''1 | Attempt 1 failed: timeout 0. Retrying in 8s...''),
               (Warn, ''1 | Attempt 2 failed: timeout 1. Retrying in 8s...''),
               (Err, ''1 | Max attempts reached: timeout 2'')],
       submitted = [], slept = [8000, 8000], rand_used = 2\<rparr>)"
  by (simp add: retryLogic_def retry_loop.simps failing_op_def world0_def
      Math_random_def logger_warn_def logger_error_def sleep_ms_def pause_of_half delay_ms_8
      show_nat.simps show_int_def digit_char_def)

section \<open>Properties of executeTransaction and getGasParams\<close>

lemmas exec_defs = executeTransaction_def estimateGas_def sendTransaction_def remote_def Let_def

lemma executeTransaction_estimate_fails:
  assumes "provider_estimateGas C txData (node w) = (Inl e, n1)"
  shows "executeTransaction C txData cid url w =
           (Inl (Error (''Failed to estimate gas: '' @ message e)),
            logger_error (''Transaction execution failed: '' @ ''Failed to estimate gas: '' @ message e)
              (w\<lparr>node := n1\<rparr>))"
  using assms by (simp add: exec_defs)

lemma executeTransaction_send_fails:
  assumes "provider_estimateGas C txData (node w) = (Inr g, n1)"
    and "wallet_sendTransaction C (with_chainId (txData\<lparr>tx_gasLimit := Some g\<rparr>) cid) n1 = (Inl e, n2)"
  shows "fst (executeTransaction C txData cid url w) = Inl e"
    and "submitted (snd (executeTransaction C txData cid url w)) =
           submitted w @ [with_chainId (txData\<lparr>tx_gasLimit := Some g\<rparr>) cid]"
    and "node (snd (executeTransaction C txData cid url w)) = n2"
    and "slept (snd (executeTransaction C txData cid url w)) = slept w"
  using assms by (simp_all add: exec_defs logger_info_def logger_error_def)

lemma executeTransaction_wait_fails:
  assumes "provider_estimateGas C txData (node w) = (Inr g, n1)"
    and "wallet_sendTransaction C (with_chainId (txData\<lparr>tx_gasLimit := Some g\<rparr>) cid) n1 = (Inr resp, n2)"
    and "txResponse_wait C resp n2 = (Inl e, n3)"
  shows "fst (executeTransaction C txData cid url w) = Inl e"
    and "submitted (snd (executeTransaction C txData cid url w)) =
           submitted w @ [with_chainId (txData\<lparr>tx_gasLimit := Some g\<rparr>) cid]"
    and "node (snd (executeTransaction C txData cid url w)) = n3"
    and "slept (snd (executeTransaction C txData cid url w)) = slept w"
  using assms by (simp_all add: exec_defs logger_info_def logger_error_def)

lemma executeTransaction_receipt:
  assumes "provider_estimateGas C txData (node w) = (Inr g, n1)"
    and "wallet_sendTransaction C (with_chainId (txData\<lparr>tx_gasLimit := Some g\<rparr>) cid) n1 = (Inr resp, n2)"
    and "txResponse_wait C resp n2 = (Inr rc, n3)"
  shows "fst (executeTransaction C txData cid url w) =
           (if status rc = 1 then Inr (Some (hash resp)) else Inr None)"
    and "submitted (snd (executeTransaction C txData cid url w)) =
           submitted w @ [with_chainId (txData\<lparr>tx_gasLimit := Some g\<rparr>) cid]"
    and "node (snd (executeTransaction C txData cid url w)) = n3"
    and "slept (snd (executeTransaction C txData cid url w)) = slept w"
    and "logs (snd (executeTransaction C txData cid url w)) =
           logs w @ [(Info, ''Estimated gas limit: '' @ show_int g),
                     (Info, ''Transaction sent: '' @ url @ hash resp),
                     (if status rc = 1
                      then (Info, url @ hash resp @ '' | Transaction successful (Gas used: ''
                                   @ show_int (gasUsed rc) @ '')'')
                      else (Err, ''Transaction failed: '' @ url @ hash resp))]"
  using assms by (simp_all add: exec_defs logger_info_def logger_error_def)


lemmas chain_defs = chain_ok_def chain_reverting_def chain_no_gas_def








text \<open>
  Claim C5 at the fee data \<^verbatim>\<open>{maxFeePerGas: 2000000000n, maxPriorityFeePerGas: 0n}\<close>:
  both fields are present, yet \<open>getGasParams\<close> returns the legacy gas price of 20 gwei
  and logs that the EIP-1559 data is not available, because \<^verbatim>\<open>0n\<close> is not truthy.
\<close>

theorem getGasParams_zero_priority_fee:
  "fst (getGasParams chain_ok world0) = Inr (GasPrice (20 * 10 ^ 9))
   \<and> logs (snd (getGasParams chain_ok world0)) =
       [(Warn, ''EIP-1559 data not available, using fallback gas price.'')]"
  by (simp add: getGasParams_def remote_def chain_ok_def world0_def truthy_bigint_def
      fallback_gasPrice_def logger_warn_def)

text \<open>
  What does hold of \<open>getGasParams\<close>: it never throws, and it returns the EIP-1559 pair
  when both fields are present and not zero.
\<close>

lemma getGasParams_never_throws: "\<not> isl (fst (getGasParams C w))"
  by (simp add: getGasParams_def remote_def split: prod.splits sum.splits)

lemma getGasParams_nonzero_pair:
  assumes "provider_getFeeData C (node w) = (Inr \<lparr>maxFeePerGas = Some a, maxPriorityFeePerGas = Some b\<rparr>, n1)"
    and "a \<noteq> 0" "b \<noteq> 0"
  shows "fst (getGasParams C w) = Inr (Eip1559 a b)"
  using assms by (simp add: getGasParams_def remote_def truthy_bigint_def)

section \<open>The chain id of every submitted transaction\<close>

lemma submits_only_iff:
  "submits_only cid w w' \<longleftrightarrow>
     (\<exists>new. submitted w' = submitted w @ new \<and> list_all (\<lambda>r. chainId r = cid) new)"
proof
  assume "submits_only cid w w'"
  then have "submitted w' = submitted w @ drop (length (submitted w)) (submitted w')"
    and "list_all (\<lambda>r. chainId r = cid) (drop (length (submitted w)) (submitted w'))"
    unfolding submits_only_def by (metis append_take_drop_id, simp)
  then show "\<exists>new. submitted w' = submitted w @ new \<and> list_all (\<lambda>r. chainId r = cid) new"
    by blast
next
  assume "\<exists>new. submitted w' = submitted w @ new \<and> list_all (\<lambda>r. chainId r = cid) new"
  then show "submits_only cid w w'" by (auto simp: submits_only_def)
qed

lemma submits_only_same: "submitted w' = submitted w \<Longrightarrow> submits_only cid w w'"
  by (simp add: submits_only_def)

lemma submits_only_trans:
  "submits_only cid w w' \<Longrightarrow> submits_only cid w' w'' \<Longrightarrow> submits_only cid w w''"
  unfolding submits_only_iff by auto

lemma submits_only_then_same:
  "submits_only cid w w' \<Longrightarrow> submitted w'' = submitted w' \<Longrightarrow> submits_only cid w w''"
  unfolding submits_only_iff by auto

lemma submits_only_after_same:
  "submitted w' = submitted w \<Longrightarrow> submits_only cid w' w'' \<Longrightarrow> submits_only cid w w''"
  unfolding submits_only_iff by auto

lemma submitted_remote [simp]: "submitted (snd (remote f w)) = submitted w"
  by (simp add: remote_def split: prod.splits)

lemma executeTransaction_submitted:
  "submitted (snd (executeTransaction C txData cid url w)) = submitted w
   \<or> (\<exists>g. submitted (snd (executeTransaction C txData cid url w)) =
          submitted w @ [with_chainId (txData\<lparr>tx_gasLimit := Some g\<rparr>) cid])"
proof (cases "provider_estimateGas C txData (node w)")
  case est: (Pair r0 n1)
  show ?thesis
  proof (cases r0)
    case (Inl e)
    with est show ?thesis by (simp add: executeTransaction_estimate_fails)
  next
    case g: (Inr g)
    show ?thesis
    proof (cases "wallet_sendTransaction C (with_chainId (txData\<lparr>tx_gasLimit := Some g\<rparr>) cid) n1")
      case (Pair r n2)
      show ?thesis
      proof (cases r)
        case (Inl e)
        with Pair est g show ?thesis
              by (intro disjI2 exI [of _ g]) (simp add: executeTransaction_send_fails)
      next
        case (Inr resp)
        show ?thesis
        proof (cases "txResponse_wait C resp n2")
          case wp: (Pair r' n3)
          show ?thesis
          proof (cases r')
            case (Inl e)
            with Pair Inr wp est g show ?thesis
              by (intro disjI2 exI [of _ g]) (simp add: executeTransaction_wait_fails)
          next
            case r2: (Inr rc)
            with Pair Inr wp est g show ?thesis
              by (intro disjI2 exI [of _ g]) (simp add: executeTransaction_receipt)
          qed
        qed
      qed
    qed
  qed
qed

lemma chainId_with_chainId [simp]: "chainId (with_chainId txData cid) = cid"
  by (simp add: with_chainId_def)

lemma submits_only_executeTransaction:
  "submits_only cid w (snd (executeTransaction C txData cid url w))"
  using executeTransaction_submitted [of C txData cid url w]
  by (auto simp: submits_only_def)

lemma submits_only_requestFaucetToken_fn:
  "submits_only CHAIN_ID w (snd (requestFaucetToken_fn T C tokenName pl ct w))"
proof -
  let ?w1 = "logger_info (accountIndex T @ '' | Requesting Teko Finance faucet token: '' @ tokenName) w"
  let ?tx = "\<lparr>tx_to = ct, tx_data = pl, tx_value = 0, tx_from = wallet_address T,
                tx_gasLimit = None\<rparr>"
  let ?r = "executeTransaction C ?tx CHAIN_ID EXPLORER_URL_MEGAETH ?w1"
  have "submits_only CHAIN_ID ?w1 (snd ?r)" by (rule submits_only_executeTransaction)
  then have a: "submits_only CHAIN_ID w (snd ?r)" by (rule submits_only_after_same [rotated]) simp
  have "submitted (snd (requestFaucetToken_fn T C tokenName pl ct w)) = submitted (snd ?r)"
    by (simp add: requestFaucetToken_fn_def Let_def split: prod.splits sum.splits)
  with a show ?thesis by (rule submits_only_then_same)
qed

lemma retry_loop_over:
  "maxAttempts < attempt \<Longrightarrow>
   retry_loop rnd fn maxAttempts pauseRange label attempt w = (Inr None, w)"
  by (subst retry_loop.simps) simp

lemma submits_only_retry_loop:
  assumes fn: "\<And>x. submits_only cid x (snd (fn x))"
  shows "submits_only cid w (snd (retry_loop rnd fn n pr label a w))"
proof (induction "Suc n - a" arbitrary: a w)
  case 0
  then have "n < a" by simp
  then show ?case by (simp add: retry_loop_over submits_only_same)
next
  case (Suc m)
  then have le: "a \<le> n" by simp
  obtain r w1 where fw: "fn w = (r, w1)" by (cases "fn w")
  have s1: "submits_only cid w w1" using fn [of w] fw by simp
  show ?case
  proof (cases r)
    case (Inr v)
    with fw le show ?thesis using s1 by (simp add: retry_loop_Inr)
  next
    case (Inl e)
    show ?thesis
    proof (cases "a = n")
      case True
      with fw Inl show ?thesis using s1
        by (simp add: retry_loop_last) (erule submits_only_then_same, simp)
    next
      case False
      with le have lt: "a < n" by simp
      have m: "m = Suc n - Suc a" using Suc.hyps(2) by simp
      have "submits_only cid (after_failure rnd pr label a e w1)
              (snd (retry_loop rnd fn n pr label (Suc a) (after_failure rnd pr label a e w1)))"
        by (rule Suc.hyps(1) [OF m])
      then have "submits_only cid w1
              (snd (retry_loop rnd fn n pr label (Suc a) (after_failure rnd pr label a e w1)))"
        by (rule submits_only_after_same [rotated]) simp
      with s1 have "submits_only cid w
              (snd (retry_loop rnd fn n pr label (Suc a) (after_failure rnd pr label a e w1)))"
        by (rule submits_only_trans)
      then show ?thesis using fw Inl lt by (simp add: retry_loop_again)
    qed
  qed
qed

lemma submits_only_requestFaucetToken:
  "submits_only CHAIN_ID w (snd (requestFaucetToken T C rnd tokenName pl ct w))"
  unfolding requestFaucetToken_def retryLogic_def
  by (rule submits_only_retry_loop) (rule submits_only_requestFaucetToken_fn)

lemma submits_only_faucet_loop:
  "submits_only CHAIN_ID w (snd (faucet_loop T C rnd ps w))"
proof (induction ps arbitrary: w)
  case Nil
  show ?case by (simp add: submits_only_same)
next
  case (Cons p ps)
  obtain r w1 where rq: "requestFaucetToken T C rnd (token p) (payload p) (contract p) w = (r, w1)"
    by (cases "requestFaucetToken T C rnd (token p) (payload p) (contract p) w")
  have s1: "submits_only CHAIN_ID w w1"
    using submits_only_requestFaucetToken [of w T C rnd "token p" "payload p" "contract p"] rq by simp
  show ?case
  proof (cases r)
    case (Inl e)
    with rq s1 show ?thesis by simp
  next
    case (Inr b)
    with rq have "faucet_loop T C rnd (p # ps) w = faucet_loop T C rnd ps w1" by simp
    with s1 Cons.IH [of w1] show ?thesis by (metis submits_only_trans)
  qed
qed

lemma submits_only_faucet: "submits_only CHAIN_ID w (snd (faucet T C rnd w))"
proof -
  obtain ps used where srt: "array_sort_random C (faucet_payloads (wallet_address T)) (rand_used w) = (ps, used)"
    by (cases "array_sort_random C (faucet_payloads (wallet_address T)) (rand_used w)")
  let ?w0 = "w\<lparr>rand_used := used\<rparr>"
  have "submits_only CHAIN_ID ?w0 (snd (faucet_loop T C rnd ps ?w0))"
    by (rule submits_only_faucet_loop)
  then have a: "submits_only CHAIN_ID w (snd (faucet_loop T C rnd ps ?w0))"
    by (rule submits_only_after_same [rotated]) simp
  have "submitted (snd (faucet T C rnd w)) = submitted (snd (faucet_loop T C rnd ps ?w0))"
    using srt by (simp add: faucet_def split: prod.splits sum.splits)
  with a show ?thesis by (rule submits_only_then_same)
qed

lemma submits_only_claim_loop: "submits_only CHAIN_ID w (claim_loop T C rnd numLoops w)"
proof (induction numLoops arbitrary: w)
  case 0
  show ?case by (simp add: submits_only_same)
next
  case (Suc numLoops)
  show ?case
    using submits_only_trans [OF submits_only_faucet [of w T C rnd] Suc.IH [of "snd (faucet T C rnd w)"]]
    by simp
qed

lemma submitted_show_balances [simp]:
  "submitted (snd (show_balances T C tokens w)) = submitted w"
proof (induction tokens arbitrary: w)
  case Nil
  show ?case by simp
next
  case (Cons a tokens)
  obtain r w1 where rm: "remote (contract_balanceOf C a (wallet_address T)) w = (r, w1)"
    by (cases "remote (contract_balanceOf C a (wallet_address T)) w")
  then have "submitted w1 = submitted w" using submitted_remote [of "contract_balanceOf C a (wallet_address T)" w] by simp
  with rm Cons.IH [of w1] show ?case by (cases r) simp_all
qed

lemma submits_only_mainMenu: "submits_only CHAIN_ID w (snd (mainMenu T C rnd answers w))"
proof (induction answers arbitrary: w)
  case Nil
  show ?case by (simp add: submits_only_same)
next
  case (Cons c answers)
  show ?case
  proof (cases c)
    case ShowWalletBalances
    obtain r w1 where sb: "show_balances T C [TKETH, TKUSDC, TKWBTC, CUSD] w = (r, w1)"
      by (cases "show_balances T C [TKETH, TKUSDC, TKWBTC, CUSD] w")
    then have same: "submitted w1 = submitted w"
      using submitted_show_balances [of T C "[TKETH, TKUSDC, TKWBTC, CUSD]" w] by simp
    show ?thesis
    proof (cases r)
      case (Inl e)
      with sb same ShowWalletBalances show ?thesis by (simp add: submits_only_same)
    next
      case (Inr u)
      with sb ShowWalletBalances have "mainMenu T C rnd (c # answers) w = mainMenu T C rnd answers w1"
        by simp
      with Cons.IH [of w1] same show ?thesis by (metis submits_only_after_same)
    qed
  next
    case (ClaimFaucet numLoops)
    then show ?thesis
      using submits_only_claim_loop [of w T C rnd numLoops] Cons.IH [of "claim_loop T C rnd numLoops w"]
      by (simp del: claim_loop.simps) (metis submits_only_trans)
  next
    case Exit
    then show ?thesis by (simp add: submits_only_same)
  qed
qed

lemma checkNetwork_frame [simp]:
  "submitted (snd (checkNetwork C w)) = submitted w"
  by (simp add: checkNetwork_def remote_def split: prod.splits sum.splits)

lemma initialize_frame [simp]:
  "submitted (snd (initialize C w)) = submitted w"
proof -
  obtain r w1 where c: "checkNetwork C w = (r, w1)" by (cases "checkNetwork C w")
  then have "submitted w1 = submitted w" using checkNetwork_frame [of C w] by simp
  with c show ?thesis by (cases r) (simp_all add: initialize_def)
qed

lemma show_int_CHAIN_ID: "show_int CHAIN_ID = ''6342''"
  by (simp add: CHAIN_ID_def show_int_def show_nat.simps digit_char_def)

lemma checkNetwork_result:
  assumes "provider_getNetwork C (node w) = (Inr cid, n1)"
  shows "checkNetwork C w =
     (if cid \<noteq> 6342
      then (Inl (Error (''Failed to connect to network: Connected to wrong network. Expected chain ID 6342, but got ''
              @ show_int cid)), w\<lparr>node := n1\<rparr>)
      else (Inr (), logger_info (''Connected to MegaETH network (chain ID: '' @ show_int cid @ '')'')
              (w\<lparr>node := n1\<rparr>)))"
  using assms by (simp add: checkNetwork_def remote_def show_int_CHAIN_ID) (simp add: CHAIN_ID_def)

text \<open>
  Claim C9. Every request that the program passes to \<^verbatim>\<open>wallet.sendTransaction\<close>
  carries the chain id 6342: this holds for the whole last block of \<^verbatim>\<open>main\<close>
  (whatever the user answers to the menu), for one call of \<^verbatim>\<open>faucet()\<close> and for
  one call of \<^verbatim>\<open>_requestFaucetToken\<close>. The program has no operation that passes
  another chain id; and when the node reports an id other than 6342, so that any
  transaction would be for another chain, the last block of \<^verbatim>\<open>main\<close> fails
  before anything is submitted.
\<close>

theorem submitted_chain_id_is_6342:
  "submits_only 6342 w (main_run T C rnd answers w)
   \<and> submits_only 6342 w (snd (faucet T C rnd w))
   \<and> submits_only 6342 w (snd (requestFaucetToken T C rnd tokenName pl ct w))
   \<and> (\<forall>cid n1. provider_getNetwork C (node w) = (Inr cid, n1) \<and> cid \<noteq> 6342 \<longrightarrow>
         submitted (main_run T C rnd answers w) = submitted w)"
proof -
  obtain r w1 where i: "initialize C w = (r, w1)" by (cases "initialize C w")
  then have same: "submitted w1 = submitted w" using initialize_frame [of C w] by simp
  have "submits_only CHAIN_ID w (main_run T C rnd answers w)"
  proof (cases r)
    case (Inl e)
    with i same show ?thesis by (simp add: main_run_def submits_only_same)
  next
    case (Inr u)
    obtain r2 w2 where m: "mainMenu T C rnd answers w1 = (r2, w2)"
      by (cases "mainMenu T C rnd answers w1")
    then have "submits_only CHAIN_ID w1 w2" using submits_only_mainMenu [of w1 T C rnd answers] by simp
    then have "submits_only CHAIN_ID w w2" using same by (metis submits_only_after_same)
    then have "submits_only CHAIN_ID w
        (logger_error (''Failed to execute TekoFinance operations: '' @ message e) w2)" for e
      by (rule submits_only_then_same) simp
    with \<open>submits_only CHAIN_ID w w2\<close> i Inr m show ?thesis
      by (cases r2) (simp_all add: main_run_def)
  qed
  moreover have "submitted (main_run T C rnd answers w) = submitted w"
    if "provider_getNetwork C (node w) = (Inr cid, n1) \<and> cid \<noteq> 6342" for cid n1
    using checkNetwork_result [of C w cid n1] that by (simp add: initialize_def main_run_def)
  ultimately show ?thesis
    using submits_only_faucet [of w T C rnd]
      submits_only_requestFaucetToken [of w T C rnd tokenName pl ct]
    unfolding CHAIN_ID_def by blast
qed

theorem submitted_chain_id_is_6342_witness:
  "submits_only 6342 world0 (main_run teko0 chain_ok rnd_half [ClaimFaucet 1, Exit] world0)
   \<and> submits_only 6342 world0 (main_run teko0 chain_wrong_net rnd_half [ClaimFaucet 1, Exit] world0)
   \<and> submitted (main_run teko0 chain_wrong_net rnd_half [ClaimFaucet 1, Exit] world0) = submitted world0"
  using submitted_chain_id_is_6342 [of world0 teko0 chain_ok rnd_half "[ClaimFaucet 1, Exit]" "''tkETH''"
      "''0x40''" TKETH]
    submitted_chain_id_is_6342 [of world0 teko0 chain_wrong_net rnd_half "[ClaimFaucet 1, Exit]"
      "''tkETH''" "''0x40''" TKETH]
  by (simp add: chain_wrong_net_def chain_ok_def world0_def)

section \<open>checkNetwork and initialize\<close>

text \<open>
  Claim C6. When the node answers the network query with the id \<open>cid\<close>,
  \<open>checkNetwork\<close> succeeds if and only if \<open>cid = 6342\<close>. For any other id it fails with
  the error whose message names the wrong network, \<open>initialize\<close> fails with the same
  error, and the last block of \<^verbatim>\<open>main\<close> then submits no transaction and makes no
  further remote call, whatever the user would have answered.
\<close>

theorem checkNetwork_iff_6342:
  assumes "provider_getNetwork C (node w) = (Inr cid, n1)"
  shows "(\<not> isl (fst (checkNetwork C w))) = (cid = 6342)
    \<and> (cid \<noteq> 6342 \<longrightarrow>
         fst (checkNetwork C w) =
           Inl (Error (''Failed to connect to network: Connected to wrong network. Expected chain ID 6342, but got ''
                  @ show_int cid))
         \<and> fst (initialize C w) = fst (checkNetwork C w)
         \<and> submitted (main_run T C rnd answers w) = submitted w
         \<and> node (main_run T C rnd answers w) = n1)"
  using checkNetwork_result [OF assms]
  by (simp add: initialize_def main_run_def)

theorem checkNetwork_iff_6342_witness:
  "isl (fst (checkNetwork chain_wrong_net world0))
   \<and> fst (checkNetwork chain_wrong_net world0) =
       Inl (Error (''Failed to connect to network: Connected to wrong network. Expected chain ID 6342, but got ''
              @ show_int 1))
   \<and> fst (initialize chain_wrong_net world0) = fst (checkNetwork chain_wrong_net world0)
   \<and> submitted (main_run teko0 chain_wrong_net rnd_half [ClaimFaucet 2, Exit] world0) = submitted world0
   \<and> node (main_run teko0 chain_wrong_net rnd_half [ClaimFaucet 2, Exit] world0) = 1
   \<and> \<not> isl (fst (checkNetwork chain_ok world0))"
  using checkNetwork_iff_6342 [of chain_wrong_net world0 1 1 teko0 rnd_half "[ClaimFaucet 2, Exit]"]
    checkNetwork_iff_6342 [of chain_ok world0 6342 1 teko0 rnd_half "[]"]
  by (simp add: chain_wrong_net_def chain_ok_def world0_def)

section \<open>faucet\<close>

lemma faucet_loop_append:
  "faucet_loop T C rnd (ps1 @ ps2) w =
     (case faucet_loop T C rnd ps1 w of
        (Inl e, w1) \<Rightarrow> (Inl e, w1)
      | (Inr u, w1) \<Rightarrow> faucet_loop T C rnd ps2 w1)"
  by (induction ps1 arbitrary: w) (simp_all split: prod.splits sum.splits)

lemma faucet_loop_Inl_split:
  "fst (faucet_loop T C rnd ps w) = Inl e \<Longrightarrow>
   \<exists>ps1 p ps2 w1. ps = ps1 @ p # ps2 \<and> faucet_loop T C rnd ps1 w = (Inr (), w1)
      \<and> fst (requestFaucetToken T C rnd (token p) (payload p) (contract p) w1) = Inl e"
proof (induction ps arbitrary: w)
  case Nil
  then show ?case by simp
next
  case (Cons p ps)
  obtain r w1 where rq: "requestFaucetToken T C rnd (token p) (payload p) (contract p) w = (r, w1)"
    by (cases "requestFaucetToken T C rnd (token p) (payload p) (contract p) w")
  show ?case
  proof (cases r)
    case (Inl e')
    with rq Cons.prems have "e' = e" by simp
    with rq Inl have "p # ps = [] @ p # ps \<and> faucet_loop T C rnd [] w = (Inr (), w)
        \<and> fst (requestFaucetToken T C rnd (token p) (payload p) (contract p) w) = Inl e"
      by simp
    then show ?thesis by blast
  next
    case (Inr b)
    with rq have step: "faucet_loop T C rnd (p # ps) w = faucet_loop T C rnd ps w1" by simp
    with Cons.prems have "fst (faucet_loop T C rnd ps w1) = Inl e" by simp
    from Cons.IH [OF this] obtain ps1 q ps2 w2 where
      s: "ps = ps1 @ q # ps2" "faucet_loop T C rnd ps1 w1 = (Inr (), w2)"
         "fst (requestFaucetToken T C rnd (token q) (payload q) (contract q) w2) = Inl e"
      by blast
    have "faucet_loop T C rnd (p # ps1) w = (Inr (), w2)" using rq Inr s(2) by simp
    with s(1,3) have "p # ps = (p # ps1) @ q # ps2 \<and> faucet_loop T C rnd (p # ps1) w = (Inr (), w2)
        \<and> fst (requestFaucetToken T C rnd (token q) (payload q) (contract q) w2) = Inl e"
      by simp
    then show ?thesis by blast
  qed
qed

lemma faucet_loop_aborts:
  assumes "faucet_loop T C rnd ps1 w = (Inr (), w1)"
    and "requestFaucetToken T C rnd (token p) (payload p) (contract p) w1 = (Inl e, w2)"
  shows "faucet_loop T C rnd (ps1 @ p # ps2) w = (Inl e, w2)"
  using assms by (simp add: faucet_loop_append)

lemma faucet_unfold:
  assumes "array_sort_random C (faucet_payloads (wallet_address T)) (rand_used w) = (payloads, used)"
  shows "faucet T C rnd w =
     (case faucet_loop T C rnd payloads (w\<lparr>rand_used := used\<rparr>) of
        (Inr u, w1) \<Rightarrow> (True, w1)
      | (Inl error, w1) \<Rightarrow>
          (False, logger_error (accountIndex T @ '' | Faucet failed: '' @ message error) w1))"
  using assms by (simp add: faucet_def)

lemma faucet_loop_isl_results:
  "isl (fst (faucet_loop T C rnd ps w)) = (\<not> list_all (\<lambda>r. \<not> isl r) (faucet_results T C rnd ps w))"
  by (induction ps arbitrary: w) (simp_all split: prod.splits sum.splits)

lemma requestFaucetToken_resolves:
  assumes "provider_estimateGas C (mint_tx T pl ct) (node w) = (Inr g, n1)"
    and "wallet_sendTransaction C (with_chainId ((mint_tx T pl ct)\<lparr>tx_gasLimit := Some g\<rparr>) CHAIN_ID) n1
           = (Inr resp, n2)"
    and "txResponse_wait C resp n2 = (Inr rc, n3)"
  shows "fst (requestFaucetToken T C rnd tokenName pl ct w) = Inr (Some (status rc = 1 \<and> hash resp \<noteq> []))"
    and "submitted (snd (requestFaucetToken T C rnd tokenName pl ct w)) =
        submitted w @ [with_chainId ((mint_tx T pl ct)\<lparr>tx_gasLimit := Some g\<rparr>) CHAIN_ID]"
    and "slept (snd (requestFaucetToken T C rnd tokenName pl ct w)) = slept w"
    and "node (snd (requestFaucetToken T C rnd tokenName pl ct w)) = n3"
    and "last (logs (snd (requestFaucetToken T C rnd tokenName pl ct w))) =
        (if status rc = 1 \<and> hash resp \<noteq> []
         then (Info, accountIndex T @ '' | Teko Finance '' @ tokenName @ '' minted successfully!'')
         else (Err, accountIndex T @ '' | Transaction failed.''))"
proof -
  let ?w1 = "logger_info (accountIndex T @ '' | Requesting Teko Finance faucet token: '' @ tokenName) w"
  let ?ex = "executeTransaction C (mint_tx T pl ct) CHAIN_ID EXPLORER_URL_MEGAETH"
  let ?b = "status rc = 1 \<and> hash resp \<noteq> []"
  let ?w3 = "if ?b
       then logger_info (accountIndex T @ '' | Teko Finance '' @ tokenName @ '' minted successfully!'')
              (snd (?ex ?w1))
       else logger_error (accountIndex T @ '' | Transaction failed.'') (snd (?ex ?w1))"
  have n: "node ?w1 = node w" by simp
  note r = executeTransaction_receipt [of C "mint_tx T pl ct" ?w1 g n1 CHAIN_ID resp n2 rc n3
      EXPLORER_URL_MEGAETH]
  have e1: "fst (?ex ?w1) = (if status rc = 1 then Inr (Some (hash resp)) else Inr None)"
    using r(1) assms n by simp
  have s1: "submitted (snd (?ex ?w1)) =
      submitted w @ [with_chainId ((mint_tx T pl ct)\<lparr>tx_gasLimit := Some g\<rparr>) CHAIN_ID]"
    using r(2) assms n by simp
  have n1: "node (snd (?ex ?w1)) = n3" using r(3) assms n by simp
  have sl: "slept (snd (?ex ?w1)) = slept w" using r(4) assms n by simp
  have fn: "requestFaucetToken_fn T C tokenName pl ct w = (Inr ?b, ?w3)"
  proof -
    obtain x w2 where ex: "?ex ?w1 = (x, w2)" by (cases "?ex ?w1")
    with e1 have "x = (if status rc = 1 then Inr (Some (hash resp)) else Inr None)" by simp
    then show ?thesis
      unfolding requestFaucetToken_fn_def Let_def mint_tx_def [symmetric]
      using ex by (simp add: truthy_hash_def)
  qed
  have rq: "requestFaucetToken T C rnd tokenName pl ct w = (Inr (Some ?b), ?w3)"
    unfolding requestFaucetToken_def retryLogic_def
    by (rule retry_loop_Inr [where fn = "requestFaucetToken_fn T C tokenName pl ct" and w = w])
       (simp_all add: fn)
  show "fst (requestFaucetToken T C rnd tokenName pl ct w) = Inr (Some ?b)"
    and "submitted (snd (requestFaucetToken T C rnd tokenName pl ct w)) =
        submitted w @ [with_chainId ((mint_tx T pl ct)\<lparr>tx_gasLimit := Some g\<rparr>) CHAIN_ID]"
    and "slept (snd (requestFaucetToken T C rnd tokenName pl ct w)) = slept w"
    and "node (snd (requestFaucetToken T C rnd tokenName pl ct w)) = n3"
    and "last (logs (snd (requestFaucetToken T C rnd tokenName pl ct w))) =
        (if ?b
         then (Info, accountIndex T @ '' | Teko Finance '' @ tokenName @ '' minted successfully!'')
         else (Err, accountIndex T @ '' | Transaction failed.''))"
    using s1 n1 sl by (simp_all add: rq)
qed

lemma retry_loop_all_fail:
  assumes "\<And>x. isl (fst (fn x))"
  shows "a \<le> n \<Longrightarrow> isl (fst (retry_loop rnd fn n pr label a w))"
proof (induction "n - a" arbitrary: a w)
  case 0
  then have an: "a = n" by simp
  obtain e w1 where fw: "fn w = (Inl e, w1)"
    using assms [of w] by (cases "fn w"; cases "fst (fn w)") auto
  show ?case unfolding an by (simp add: retry_loop_last [where fn = fn, OF fw])
next
  case (Suc m)
  then have lt: "a < n" by simp
  obtain e w1 where fw: "fn w = (Inl e, w1)"
    using assms [of w] by (cases "fn w"; cases "fst (fn w)") auto
  have "m = n - Suc a" "Suc a \<le> n" using Suc.hyps(2) lt by simp_all
  from Suc.hyps(1) [OF this] show ?case by (simp add: retry_loop_again [where fn = fn, OF lt fw])
qed

lemma retry_loop_submitted_same:
  assumes fn: "\<And>x. submitted (snd (fn x)) = submitted x"
  shows "submitted (snd (retry_loop rnd fn n pr label a w)) = submitted w"
proof (induction "Suc n - a" arbitrary: a w)
  case 0
  then have "n < a" by simp
  then show ?case by (simp add: retry_loop_over)
next
  case (Suc m)
  then have le: "a \<le> n" by simp
  obtain r w1 where fw: "fn w = (r, w1)" by (cases "fn w")
  have s1: "submitted w1 = submitted w" using fn [of w] fw by simp
  show ?case
  proof (cases r)
    case (Inr v)
    with fw le show ?thesis using s1 by (simp add: retry_loop_Inr)
  next
    case (Inl e)
    show ?thesis
    proof (cases "a = n")
      case True
      with fw Inl show ?thesis using s1 by (simp add: retry_loop_last)
    next
      case False
      with le have lt: "a < n" by simp
      have m: "m = Suc n - Suc a" using Suc.hyps(2) by simp
      show ?thesis using Suc.hyps(1) [OF m, of "after_failure rnd pr label a e w1"] fw Inl lt s1
        by (simp add: retry_loop_again)
    qed
  qed
qed

lemma requestFaucetToken_no_gas:
  assumes "\<And>n. isl (fst (provider_estimateGas C (mint_tx T pl ct) n))"
  shows "isl (fst (requestFaucetToken T C rnd tokenName pl ct w))"
    and "submitted (snd (requestFaucetToken T C rnd tokenName pl ct w)) = submitted w"
proof -
  have fn: "isl (fst (requestFaucetToken_fn T C tokenName pl ct x))
      \<and> submitted (snd (requestFaucetToken_fn T C tokenName pl ct x)) = submitted x" for x
  proof -
    let ?w1 = "logger_info (accountIndex T @ '' | Requesting Teko Finance faucet token: '' @ tokenName) x"
    obtain e n1 where est: "provider_estimateGas C (mint_tx T pl ct) (node ?w1) = (Inl e, n1)"
      using assms [of "node ?w1"]
      by (cases "provider_estimateGas C (mint_tx T pl ct) (node ?w1)";
          cases "fst (provider_estimateGas C (mint_tx T pl ct) (node ?w1))") auto
    have ex: "executeTransaction C (mint_tx T pl ct) CHAIN_ID EXPLORER_URL_MEGAETH ?w1 =
        (Inl (Error (''Failed to estimate gas: '' @ message e)),
         logger_error (''Transaction execution failed: '' @ ''Failed to estimate gas: '' @ message e)
           (?w1\<lparr>node := n1\<rparr>))"
      by (rule executeTransaction_estimate_fails [OF est])
    show ?thesis
      unfolding requestFaucetToken_fn_def Let_def mint_tx_def [symmetric]
      using ex by (simp add: logger_info_def logger_error_def)
  qed
  show "isl (fst (requestFaucetToken T C rnd tokenName pl ct w))"
    unfolding requestFaucetToken_def retryLogic_def
    by (rule retry_loop_all_fail) (simp_all add: fn)
  show "submitted (snd (requestFaucetToken T C rnd tokenName pl ct w)) = submitted w"
    unfolding requestFaucetToken_def retryLogic_def
    by (rule retry_loop_submitted_same) (simp add: fn)
qed

lemma faucet_results_Cons:
  "faucet_results T C rnd (p # ps) w =
     (case fst (requestFaucetToken T C rnd (token p) (payload p) (contract p) w) of
        Inl e \<Rightarrow> [Inl e]
      | Inr r \<Rightarrow> Inr r # faucet_results T C rnd ps
                  (snd (requestFaucetToken T C rnd (token p) (payload p) (contract p) w)))"
  by (simp split: prod.splits sum.splits)

lemma chain_reverting_result:
  "fst (requestFaucetToken T chain_reverting rnd tokenName pl ct w) = Inr (Some False)"
  using requestFaucetToken_resolves(1) [of chain_reverting T pl ct w 21000 "Suc (node w)"
      "\<lparr>hash = ''0xabc''\<rparr>" "Suc (Suc (node w))" "\<lparr>status = 0, gasUsed = 21000\<rparr>"
      "Suc (Suc (Suc (node w)))" rnd tokenName]
  by (simp add: chain_defs)

lemma chain_no_gas_for_tkWBTC_other:
  assumes "ct \<noteq> TKWBTC"
  shows "fst (requestFaucetToken T chain_no_gas_for_tkWBTC rnd tokenName pl ct w) = Inr (Some True)"
    and "submitted (snd (requestFaucetToken T chain_no_gas_for_tkWBTC rnd tokenName pl ct w)) =
           submitted w @ [with_chainId ((mint_tx T pl ct)\<lparr>tx_gasLimit := Some 21000\<rparr>) CHAIN_ID]"
  using assms requestFaucetToken_resolves(1,2) [of chain_no_gas_for_tkWBTC T pl ct w 21000 "Suc (node w)"
      "\<lparr>hash = ''0xabc''\<rparr>" "Suc (Suc (node w))" "\<lparr>status = 1, gasUsed = 21000\<rparr>"
      "Suc (Suc (Suc (node w)))" rnd tokenName]
  by (simp_all add: chain_no_gas_for_tkWBTC_def chain_defs mint_tx_def)

lemma chain_no_gas_for_tkWBTC_fails:
  "isl (fst (requestFaucetToken T chain_no_gas_for_tkWBTC rnd tokenName pl TKWBTC w))"
  "submitted (snd (requestFaucetToken T chain_no_gas_for_tkWBTC rnd tokenName pl TKWBTC w)) = submitted w"
  by (rule requestFaucetToken_no_gas; simp add: chain_no_gas_for_tkWBTC_def chain_defs mint_tx_def)+

text \<open>
  For any collaborator: \<open>faucet\<close> returns \<^verbatim>\<open>false\<close> if and only if some operation
  of the order \<open>payloads\<close>, reached after all the operations before it have returned,
  throws; and then the world that \<open>faucet\<close> leaves is the world that this operation
  left, plus one error line.
\<close>

lemma faucet_false_iff_throw:
  assumes "array_sort_random C (faucet_payloads (wallet_address T)) (rand_used w) = (payloads, used)"
  shows "(fst (faucet T C rnd w) = False) =
           (\<exists>ps1 p ps2 w1. payloads = ps1 @ p # ps2
              \<and> faucet_loop T C rnd ps1 (w\<lparr>rand_used := used\<rparr>) = (Inr (), w1)
              \<and> isl (fst (requestFaucetToken T C rnd (token p) (payload p) (contract p) w1)))
    \<and> (\<forall>ps1 p ps2 w1 e w2. payloads = ps1 @ p # ps2
          \<and> faucet_loop T C rnd ps1 (w\<lparr>rand_used := used\<rparr>) = (Inr (), w1)
          \<and> requestFaucetToken T C rnd (token p) (payload p) (contract p) w1 = (Inl e, w2)
          \<longrightarrow> faucet T C rnd w =
                (False, logger_error (accountIndex T @ '' | Faucet failed: '' @ message e) w2))"
proof (intro conjI allI impI)
  let ?w0 = "w\<lparr>rand_used := used\<rparr>"
  show "(fst (faucet T C rnd w) = False) =
           (\<exists>ps1 p ps2 w1. payloads = ps1 @ p # ps2
              \<and> faucet_loop T C rnd ps1 ?w0 = (Inr (), w1)
              \<and> isl (fst (requestFaucetToken T C rnd (token p) (payload p) (contract p) w1)))"
    (is "?L = ?R")
  proof
    assume ?L
    then obtain e where "fst (faucet_loop T C rnd payloads ?w0) = Inl e"
      unfolding faucet_unfold [OF assms] by (auto split: prod.splits sum.splits)
    from faucet_loop_Inl_split [OF this] show ?R by (metis sum.disc(1))
  next
    assume ?R
    then obtain ps1 p ps2 w1 where s: "payloads = ps1 @ p # ps2"
        "faucet_loop T C rnd ps1 ?w0 = (Inr (), w1)"
        "isl (fst (requestFaucetToken T C rnd (token p) (payload p) (contract p) w1))"
      by blast
    from s(3) obtain e w2 where
      "requestFaucetToken T C rnd (token p) (payload p) (contract p) w1 = (Inl e, w2)"
      by (cases "requestFaucetToken T C rnd (token p) (payload p) (contract p) w1";
          cases "fst (requestFaucetToken T C rnd (token p) (payload p) (contract p) w1)") auto
    from faucet_loop_aborts [OF s(2) this] s(1) show ?L
      unfolding faucet_unfold [OF assms] by simp
  qed
next
  fix ps1 p ps2 w1 e w2
  assume "payloads = ps1 @ p # ps2
          \<and> faucet_loop T C rnd ps1 (w\<lparr>rand_used := used\<rparr>) = (Inr (), w1)
          \<and> requestFaucetToken T C rnd (token p) (payload p) (contract p) w1 = (Inl e, w2)"
  then show "faucet T C rnd w =
                (False, logger_error (accountIndex T @ '' | Faucet failed: '' @ message e) w2)"
    unfolding faucet_unfold [OF assms] using faucet_loop_aborts [of T C rnd ps1 _ w1 p e w2 ps2]
    by simp
qed

lemma executeTransaction_Inr:
  assumes "fst (executeTransaction C txData cid url w) = Inr h"
  shows "\<exists>g n1 resp n2 rc n3. provider_estimateGas C txData (node w) = (Inr g, n1)
     \<and> wallet_sendTransaction C (with_chainId (txData\<lparr>tx_gasLimit := Some g\<rparr>) cid) n1 = (Inr resp, n2)
     \<and> txResponse_wait C resp n2 = (Inr rc, n3)
     \<and> h = (if status rc = 1 then Some (hash resp) else None)"
proof (cases "provider_estimateGas C txData (node w)")
  case est: (Pair r0 n1)
  show ?thesis
  proof (cases r0)
    case (Inl e)
    with est assms show ?thesis by (simp add: executeTransaction_estimate_fails)
  next
    case g: (Inr g)
    show ?thesis
    proof (cases "wallet_sendTransaction C (with_chainId (txData\<lparr>tx_gasLimit := Some g\<rparr>) cid) n1")
      case (Pair r n2)
      show ?thesis
      proof (cases r)
        case (Inl e)
        with Pair est g assms show ?thesis by (simp add: executeTransaction_send_fails)
      next
        case (Inr resp)
        show ?thesis
        proof (cases "txResponse_wait C resp n2")
          case wp: (Pair r' n3)
          show ?thesis
          proof (cases r')
            case (Inl e)
            with Pair Inr wp est g assms show ?thesis by (simp add: executeTransaction_wait_fails)
          next
            case r2: (Inr rc)
            have "h = (if status rc = 1 then Some (hash resp) else None)"
              using executeTransaction_receipt(1) [of C txData w g n1 cid resp n2 rc n3 url]
                Pair Inr wp est g r2 assms by (simp split: if_splits)
            with Pair Inr wp est g r2 show ?thesis by blast
          qed
        qed
      qed
    qed
  qed
qed

lemma requestFaucetToken_fn_Inr_True:
  assumes wait: "\<forall>resp n rc n'. txResponse_wait C resp n = (Inr rc, n') \<longrightarrow> status rc = 1"
    and hash: "\<forall>req n resp n'. wallet_sendTransaction C req n = (Inr resp, n') \<longrightarrow> hash resp \<noteq> []"
    and v: "fst (requestFaucetToken_fn T C tokenName pl ct x) = Inr v"
  shows "v = True"
proof -
  let ?w1 = "logger_info (accountIndex T @ '' | Requesting Teko Finance faucet token: '' @ tokenName) x"
  let ?ex = "executeTransaction C (mint_tx T pl ct) CHAIN_ID EXPLORER_URL_MEGAETH ?w1"
  obtain a w2 where ex: "?ex = (a, w2)" by (cases ?ex)
  have fn: "requestFaucetToken_fn T C tokenName pl ct x =
      (case a of Inl error \<Rightarrow> (Inl error, w2)
       | Inr txHash \<Rightarrow>
           if truthy_hash txHash then
             (Inr True, logger_info (accountIndex T @ '' | Teko Finance '' @ tokenName
                @ '' minted successfully!'') w2)
           else (Inr False, logger_error (accountIndex T @ '' | Transaction failed.'') w2))"
    unfolding requestFaucetToken_fn_def Let_def mint_tx_def [symmetric] using ex by simp
  show ?thesis
  proof (cases a)
    case (Inl e)
    with fn v show ?thesis by simp
  next
    case (Inr h)
    with ex have "fst ?ex = Inr h" by simp
    from executeTransaction_Inr [OF this] obtain g n1 resp n2 rc n3 where
      s: "wallet_sendTransaction C
            (with_chainId ((mint_tx T pl ct)\<lparr>tx_gasLimit := Some g\<rparr>) CHAIN_ID) n1 = (Inr resp, n2)"
         "txResponse_wait C resp n2 = (Inr rc, n3)"
         "h = (if status rc = 1 then Some (hash resp) else None)"
      by blast
    have "status rc = 1" using wait s(2) by blast
    moreover have "hash resp \<noteq> []" using hash s(1) by blast
    ultimately have "truthy_hash h" using s(3) by (simp add: truthy_hash_def)
    with fn Inr v show ?thesis by simp
  qed
qed

lemma retry_loop_Inr_from_fn:
  "a \<le> n \<Longrightarrow> fst (retry_loop rnd fn n pr label a w) = Inr r \<Longrightarrow>
   \<exists>v x. r = Some v \<and> fst (fn x) = Inr v"
proof (induction "n - a" arbitrary: a w)
  case 0
  then have an: "a = n" by simp
  obtain res w1 where fw: "fn w = (res, w1)" by (cases "fn w")
  show ?case
  proof (cases res)
    case (Inl e)
    with fw 0(3) show ?thesis unfolding an by (simp add: retry_loop_last [where fn = fn])
  next
    case (Inr v)
    with fw 0(2,3) have "r = Some v" by (simp add: retry_loop_Inr [where fn = fn])
    moreover have "fst (fn w) = Inr v" using fw Inr by simp
    ultimately show ?thesis by blast
  qed
next
  case (Suc m)
  then have lt: "a < n" by simp
  obtain res w1 where fw: "fn w = (res, w1)" by (cases "fn w")
  show ?case
  proof (cases res)
    case (Inl e)
    have "m = n - Suc a" "Suc a \<le> n" using Suc.hyps(2) lt by simp_all
    moreover have "fst (retry_loop rnd fn n pr label (Suc a) (after_failure rnd pr label a e w1)) = Inr r"
      using Suc.prems(2) fw Inl lt by (simp add: retry_loop_again [where fn = fn])
    ultimately show ?thesis by (rule Suc.hyps(1))
  next
    case (Inr v)
    with fw Suc.prems have "r = Some v" by (simp add: retry_loop_Inr [where fn = fn])
    moreover have "fst (fn w) = Inr v" using fw Inr by simp
    ultimately show ?thesis by blast
  qed
qed

lemma requestFaucetToken_Inr_True:
  assumes "\<forall>resp n rc n'. txResponse_wait C resp n = (Inr rc, n') \<longrightarrow> status rc = 1"
    and "\<forall>req n resp n'. wallet_sendTransaction C req n = (Inr resp, n') \<longrightarrow> hash resp \<noteq> []"
    and "fst (requestFaucetToken T C rnd tokenName pl ct w) = Inr r"
  shows "r = Some True"
proof -
  have "fst (retry_loop rnd (requestFaucetToken_fn T C tokenName pl ct) 3 (PAUSE_BETWEEN_ATTEMPTS T)
              (accountIndex T) 1 w) = Inr r"
    using assms(3) unfolding requestFaucetToken_def retryLogic_def .
  from retry_loop_Inr_from_fn [where fn = "requestFaucetToken_fn T C tokenName pl ct", OF _ this]
  obtain v x where "r = Some v" "fst (requestFaucetToken_fn T C tokenName pl ct x) = Inr v"
    by auto
  with requestFaucetToken_fn_Inr_True [OF assms(1,2)] show ?thesis by blast
qed

lemma faucet_results_all_true:
  assumes "\<And>(p::faucet_payload) w r.
             fst (requestFaucetToken T C rnd (token p) (payload p) (contract p) w) = Inr r
             \<Longrightarrow> r = Some True"
  shows "(faucet_results T C rnd ps w = map (\<lambda>p. Inr (Some True)) ps)
           = (\<not> isl (fst (faucet_loop T C rnd ps w)))"
proof (induction ps arbitrary: w)
  case Nil
  show ?case by simp
next
  case (Cons p ps)
  obtain res w1 where rq: "requestFaucetToken T C rnd (token p) (payload p) (contract p) w = (res, w1)"
    by (cases "requestFaucetToken T C rnd (token p) (payload p) (contract p) w")
  show ?case
  proof (cases res)
    case (Inl e)
    with rq show ?thesis by simp
  next
    case (Inr r)
    with rq assms [of p w r] have "r = Some True" by simp
    with rq Inr Cons.IH [of w1] show ?thesis by simp
  qed
qed

lemma chain_ok_result:
  "fst (requestFaucetToken T chain_ok rnd tokenName pl ct w) = Inr (Some True)"
  using requestFaucetToken_resolves(1) [of chain_ok T pl ct w 21000 "Suc (node w)"
      "\<lparr>hash = ''0xabc''\<rparr>" "Suc (Suc (node w))" "\<lparr>status = 1, gasUsed = 21000\<rparr>"
      "Suc (Suc (Suc (node w)))" rnd tokenName]
  by (simp add: chain_defs)

text \<open>
  Claim C2. Let \<open>payloads\<close> be the order that the sort gives to the four operations, and
  let the collaborators behave as the library does: \<^verbatim>\<open>wait()\<close> resolves only with a
  receipt of status 1 and a submitted transaction has a hash that is not empty. Then
  \<open>faucet\<close> returns \<^verbatim>\<open>true\<close> if and only if every operation of the order is
  attempted and returns \<^verbatim>\<open>true\<close>; and when an operation throws (which it does only
  once its retry budget is exhausted), \<open>faucet\<close> returns \<^verbatim>\<open>false\<close> and the world
  it leaves is the world that this operation left, plus one error line: the operations
  after it are never attempted.
\<close>

theorem faucet_true_iff_all_succeed:
  assumes "array_sort_random C (faucet_payloads (wallet_address T)) (rand_used w) = (payloads, used)"
    and "\<forall>resp n rc n'. txResponse_wait C resp n = (Inr rc, n') \<longrightarrow> status rc = 1"
    and "\<forall>req n resp n'. wallet_sendTransaction C req n = (Inr resp, n') \<longrightarrow> hash resp \<noteq> []"
  shows "fst (faucet T C rnd w) =
           (faucet_results T C rnd payloads (w\<lparr>rand_used := used\<rparr>)
              = map (\<lambda>p. Inr (Some True)) payloads)
    \<and> (\<forall>ps1 p ps2 w1 e w2. payloads = ps1 @ p # ps2
          \<and> faucet_loop T C rnd ps1 (w\<lparr>rand_used := used\<rparr>) = (Inr (), w1)
          \<and> requestFaucetToken T C rnd (token p) (payload p) (contract p) w1 = (Inl e, w2)
          \<longrightarrow> faucet T C rnd w =
                (False, logger_error (accountIndex T @ '' | Faucet failed: '' @ message e) w2))"
proof -
  let ?w0 = "w\<lparr>rand_used := used\<rparr>"
  have "(faucet_results T C rnd payloads ?w0 = map (\<lambda>p. Inr (Some True)) payloads)
      = (\<not> isl (fst (faucet_loop T C rnd payloads ?w0)))"
    by (rule faucet_results_all_true) (rule requestFaucetToken_Inr_True [OF assms(2,3)])
  moreover have "fst (faucet T C rnd w) = (\<not> isl (fst (faucet_loop T C rnd payloads ?w0)))"
    unfolding faucet_unfold [OF assms(1)]
    by (cases "faucet_loop T C rnd payloads ?w0"; cases "fst (faucet_loop T C rnd payloads ?w0)") auto
  ultimately show ?thesis
    using faucet_false_iff_throw [OF assms(1), of rnd, THEN conjunct2] by simp
qed

theorem faucet_true_iff_all_succeed_witness:
  "fst (faucet teko0 chain_ok rnd_half world0) = True
   \<and> faucet_results teko0 chain_ok rnd_half (rev (faucet_payloads (wallet_address teko0)))
        (world0\<lparr>rand_used := 6\<rparr>)
      = [Inr (Some True), Inr (Some True), Inr (Some True), Inr (Some True)]
   \<and> (\<exists>ps1 p ps2 w1 e w2. rev (faucet_payloads (wallet_address teko0)) = ps1 @ p # ps2
      \<and> faucet_loop teko0 chain_no_gas_for_tkWBTC rnd_half ps1 (world0\<lparr>rand_used := 6\<rparr>) = (Inr (), w1)
      \<and> requestFaucetToken teko0 chain_no_gas_for_tkWBTC rnd_half (token p) (payload p) (contract p) w1
          = (Inl e, w2)
      \<and> token p = ''tkWBTC''
      \<and> faucet teko0 chain_no_gas_for_tkWBTC rnd_half world0 =
          (False, logger_error (accountIndex teko0 @ '' | Faucet failed: '' @ message e) w2)
      \<and> map tx_to (submitted (snd (faucet teko0 chain_no_gas_for_tkWBTC rnd_half world0))) = [CUSD])"
proof -
  let ?ps = "faucet_payloads (wallet_address teko0)"
  let ?C = chain_no_gas_for_tkWBTC
  let ?w0 = "world0\<lparr>rand_used := 6\<rparr>"
  let ?pc = "?ps ! 3" and ?pw = "?ps ! 2"
  let ?r1 = "requestFaucetToken teko0 ?C rnd_half (token ?pc) (payload ?pc) (contract ?pc) ?w0"
  let ?r2 = "requestFaucetToken teko0 ?C rnd_half (token ?pw) (payload ?pw) (contract ?pw) (snd ?r1)"
  have ok_s: "array_sort_random chain_ok ?ps (rand_used world0) = (rev ?ps, 6)"
    by (simp add: chain_defs world0_def)
  have ok_w: "\<forall>resp n rc n'. txResponse_wait chain_ok resp n = (Inr rc, n') \<longrightarrow> status rc = 1"
    and ok_h: "\<forall>req n resp n'. wallet_sendTransaction chain_ok req n = (Inr resp, n') \<longrightarrow> hash resp \<noteq> []"
    by (auto simp: chain_defs)
  have ok_r: "faucet_results teko0 chain_ok rnd_half (rev ?ps) ?w0
      = [Inr (Some True), Inr (Some True), Inr (Some True), Inr (Some True)]"
    by (simp add: faucet_payloads_def faucet_results_Cons chain_ok_result
        del: faucet_results.simps(2))
  have ok: "fst (faucet teko0 chain_ok rnd_half world0) = True"
    using faucet_true_iff_all_succeed [OF ok_s ok_w ok_h, of rnd_half, THEN conjunct1] ok_r
    by (simp add: faucet_payloads_def)
  have rv: "rev ?ps = [?pc] @ ?pw # [?ps ! 1, ?ps ! 0]" by (simp add: faucet_payloads_def)
  have cc: "contract ?pc = CUSD" "contract ?pc \<noteq> TKWBTC"
    and cw: "contract ?pw = TKWBTC" "token ?pw = ''tkWBTC''"
    by (simp_all add: faucet_payloads_def CUSD_def TKWBTC_def)
  have s: "array_sort_random ?C ?ps (rand_used world0) = (rev ?ps, 6)"
    by (simp add: chain_no_gas_for_tkWBTC_def chain_defs world0_def)
  have cw_w: "\<forall>resp n rc n'. txResponse_wait ?C resp n = (Inr rc, n') \<longrightarrow> status rc = 1"
    and cw_h: "\<forall>req n resp n'. wallet_sendTransaction ?C req n = (Inr resp, n') \<longrightarrow> hash resp \<noteq> []"
    by (auto simp: chain_no_gas_for_tkWBTC_def chain_defs)
  have f1: "fst ?r1 = Inr (Some True)" by (rule chain_no_gas_for_tkWBTC_other(1) [OF cc(2)])
  have "submitted (snd ?r1) = submitted ?w0 @
      [with_chainId ((mint_tx teko0 (payload ?pc) (contract ?pc))\<lparr>tx_gasLimit := Some 21000\<rparr>) CHAIN_ID]"
    by (rule chain_no_gas_for_tkWBTC_other(2) [OF cc(2)])
  then have s1: "map tx_to (submitted (snd ?r1)) = [CUSD]"
    by (simp add: cc(1) world0_def with_chainId_def mint_tx_def)
  have l1: "faucet_loop teko0 ?C rnd_half [?pc] ?w0 = (Inr (), snd ?r1)"
    using f1 by (cases ?r1) simp
  have "isl (fst ?r2)" unfolding cw(1) by (rule chain_no_gas_for_tkWBTC_fails(1))
  then obtain e w2 where r2: "?r2 = (Inl e, w2)" by (cases ?r2; cases "fst ?r2") auto
  have "submitted (snd ?r2) = submitted (snd ?r1)"
    unfolding cw(1) by (rule chain_no_gas_for_tkWBTC_fails(2))
  with r2 s1 have s2: "map tx_to (submitted w2) = [CUSD]" by simp
  have "faucet teko0 ?C rnd_half world0 =
      (False, logger_error (accountIndex teko0 @ '' | Faucet failed: '' @ message e) w2)"
    using faucet_true_iff_all_succeed [OF s cw_w cw_h, of rnd_half, THEN conjunct2] rv l1 r2
    by blast
  with s2 rv l1 r2 cw(2) have "\<exists>ps1 p ps2 w1 e w2. rev ?ps = ps1 @ p # ps2
      \<and> faucet_loop teko0 ?C rnd_half ps1 ?w0 = (Inr (), w1)
      \<and> requestFaucetToken teko0 ?C rnd_half (token p) (payload p) (contract p) w1 = (Inl e, w2)
      \<and> token p = ''tkWBTC''
      \<and> faucet teko0 ?C rnd_half world0 =
          (False, logger_error (accountIndex teko0 @ '' | Faucet failed: '' @ message e) w2)
      \<and> map tx_to (submitted (snd (faucet teko0 ?C rnd_half world0))) = [CUSD]"
    by (intro exI [of _ "[?pc]"] exI [of _ ?pw] exI [of _ "[?ps ! 1, ?ps ! 0]"] exI [of _ "snd ?r1"]
        exI [of _ e] exI [of _ w2]) simp
  with ok ok_r show ?thesis by blast
qed

text \<open>
  Claim C10. \<open>faucet\<close> returns \<^verbatim>\<open>true\<close> exactly when none of the awaited calls of
  its loop throws: the values that the calls return, \<^verbatim>\<open>false\<close> for a reverted
  transaction included, have no influence. In the run of the witness all four transactions
  are reverted, all four calls return \<^verbatim>\<open>false\<close>, and the result is
  \<^verbatim>\<open>true\<close>.
\<close>

theorem faucet_true_despite_reverts:
  assumes "array_sort_random C (faucet_payloads (wallet_address T)) (rand_used w) = (payloads, used)"
  shows "fst (faucet T C rnd w) =
           list_all (\<lambda>r. \<not> isl r) (faucet_results T C rnd payloads (w\<lparr>rand_used := used\<rparr>))"
  using faucet_loop_isl_results [of T C rnd payloads "w\<lparr>rand_used := used\<rparr>"]
  unfolding faucet_unfold [OF assms]
  by (cases "faucet_loop T C rnd payloads (w\<lparr>rand_used := used\<rparr>)";
      cases "fst (faucet_loop T C rnd payloads (w\<lparr>rand_used := used\<rparr>))") auto

theorem faucet_true_despite_reverts_witness:
  "fst (faucet teko0 chain_reverting rnd_half world0) = True
   \<and> faucet_results teko0 chain_reverting rnd_half
        (rev (faucet_payloads (wallet_address teko0))) (world0\<lparr>rand_used := 6\<rparr>)
      = [Inr (Some False), Inr (Some False), Inr (Some False), Inr (Some False)]"
proof -
  have r: "faucet_results teko0 chain_reverting rnd_half
        (rev (faucet_payloads (wallet_address teko0))) (world0\<lparr>rand_used := 6\<rparr>)
      = [Inr (Some False), Inr (Some False), Inr (Some False), Inr (Some False)]"
    by (simp add: faucet_payloads_def faucet_results_Cons chain_reverting_result
        del: faucet_results.simps(2))
  have s: "array_sort_random chain_reverting (faucet_payloads (wallet_address teko0)) (rand_used world0)
      = (rev (faucet_payloads (wallet_address teko0)), 6)"
    by (simp add: chain_defs world0_def)
  show ?thesis using faucet_true_despite_reverts [OF s, of rnd_half] r by simp
qed

section \<open>The mint payloads\<close>

lemma hex_of_bytes_append: "hex_of_bytes (xs @ ys) = hex_of_bytes xs @ hex_of_bytes ys"
  by (simp add: hex_of_bytes_def)

lemma be_bytes_unfold:
  "0 < n \<Longrightarrow> be_bytes n v = be_bytes (n - 1) (v div 256) @ [of_nat (v mod 256)]"
  by (cases n) simp_all

lemma replicate_12: "replicate 12 x = [x, x, x, x, x, x, x, x, x, x, x, x]"
  by (simp add: numeral_eq_Suc)

lemma hex_selector: "hex_of_bytes selector = ''40c10f19''"
  by (simp add: hex_of_bytes_def hex_of_byte_def selector_def digit_char_def)

lemma hex_padding: "hex_of_bytes (replicate 12 0) = ''000000000000000000000000''"
  by (simp add: replicate_12 hex_of_bytes_def hex_of_byte_def digit_char_def)

lemma hex_amount_tkETH:
  "hex_of_bytes (be_bytes 32 (10 ^ 18)) =
     ''0000000000000000000000000000000000000000000000000de0b6b3a7640000''"
  by (simp add: be_bytes_unfold hex_of_bytes_def hex_of_byte_def digit_char_def)

lemma hex_amount_tkUSDC:
  "hex_of_bytes (be_bytes 32 (2 * 10 ^ 9)) =
     ''0000000000000000000000000000000000000000000000000000000077359400''"
  by (simp add: be_bytes_unfold hex_of_bytes_def hex_of_byte_def digit_char_def)

lemma hex_amount_tkWBTC:
  "hex_of_bytes (be_bytes 32 (2 * 10 ^ 6)) =
     ''00000000000000000000000000000000000000000000000000000000001e8480''"
  by (simp add: be_bytes_unfold hex_of_bytes_def hex_of_byte_def digit_char_def)

lemma hex_amount_cUSD:
  "hex_of_bytes (be_bytes 32 (10 ^ 21)) =
     ''00000000000000000000000000000000000000000000003635c9adc5dea00000''"
  by (simp add: be_bytes_unfold hex_of_bytes_def hex_of_byte_def digit_char_def)

lemma length_be_bytes [simp]: "length (be_bytes n v) = n"
  by (induction n arbitrary: v) simp_all

lemma length_mint_calldata:
  "length recipient = 20 \<Longrightarrow> length (mint_calldata recipient amount) = 4 + 32 + 32"
  by (simp add: mint_calldata_def selector_def)

text \<open>
  Claim C7. For every 20-byte recipient and every text of its address, the payloads built by
  \<^verbatim>\<open>faucet()\<close> for tkETH, tkUSDC, tkWBTC and cUSD are, digit for digit, the
  hexadecimal rendering of: the selector \<^verbatim>\<open>0x40c10f19\<close>, twelve zero bytes and the
  20 bytes of the recipient, and the amount (\<open>10 ^ 18\<close>, \<open>2 * 10 ^ 9\<close>, \<open>2 * 10 ^ 6\<close>
  and \<open>10 ^ 21\<close> respectively) as a 32-byte big-endian integer.
\<close>

theorem faucet_payloads_calldata:
  assumes "address_text recipient address"
  shows "map token (faucet_payloads address) = [''tkETH'', ''tkUSDC'', ''tkWBTC'', ''cUSD'']
    \<and> map payload (faucet_payloads address) =
       [''0x'' @ hex_of_bytes (mint_calldata recipient (10 ^ 18)),
        ''0x'' @ hex_of_bytes (mint_calldata recipient (2 * 10 ^ 9)),
        ''0x'' @ hex_of_bytes (mint_calldata recipient (2 * 10 ^ 6)),
        ''0x'' @ hex_of_bytes (mint_calldata recipient (10 ^ 21))]"
proof -
  have h: "toLowerCase (drop 2 address) = hex_of_bytes recipient"
    using assms by (simp add: address_text_def)
  show ?thesis
    unfolding faucet_payloads_def mint_calldata_def hex_of_bytes_append hex_selector hex_padding
      hex_amount_tkETH hex_amount_tkUSDC hex_amount_tkWBTC hex_amount_cUSD h
    by simp
qed

theorem faucet_payloads_calldata_witness:
  "map token (faucet_payloads ''0xAbCdEf0123456789aBcDeF0123456789abcdef01'')
     = [''tkETH'', ''tkUSDC'', ''tkWBTC'', ''cUSD'']
   \<and> map payload (faucet_payloads ''0xAbCdEf0123456789aBcDeF0123456789abcdef01'') =
       [''0x'' @ hex_of_bytes (mint_calldata address0 (10 ^ 18)),
        ''0x'' @ hex_of_bytes (mint_calldata address0 (2 * 10 ^ 9)),
        ''0x'' @ hex_of_bytes (mint_calldata address0 (2 * 10 ^ 6)),
        ''0x'' @ hex_of_bytes (mint_calldata address0 (10 ^ 21))]"
  by (rule faucet_payloads_calldata)
     (simp add: address_text_def address0_def toLowerCase_def toLowerCase_char_def char_of_def
      bit_Suc_0_iff hex_of_bytes_def hex_of_byte_def digit_char_def)

lemma payload_tkETH_example:
  "payload (hd (faucet_payloads ''0xAbCdEf0123456789aBcDeF0123456789abcdef01'')) =
     ''0x40c10f19000000000000000000000000abcdef0123456789abcdef0123456789abcdef010000000000000000000000000000000000000000000000000de0b6b3a7640000''"
  by (simp add: faucet_payloads_def toLowerCase_def toLowerCase_char_def char_of_def bit_Suc_0_iff)

end
